theory Spec2Isabelle
  imports Complex_Main "HOL-Library.Sublist" "HOL-Library.AList"
begin

section \<open>Python strings\<close>

text \<open>
  A Python \<open>str\<close> is modelled as a \<open>string\<close> whose characters are read as the code points
  0..255 (Latin-1). On that range \<open>str.lower\<close> keeps the length of the text, and the sets of
  whitespace and of word characters are the ones Python uses for \<open>str.strip\<close>, \<open>\s\<close>,
  \<open>\w\<close> and \<open>\b\<close>. Text with code points above 255 is outside the model.
\<close>

definition code :: "char \<Rightarrow> nat" where
  "code c = of_char c"

definition is_space :: "char \<Rightarrow> bool" where
  "is_space c = (let n = code c in (9 \<le> n \<and> n \<le> 13) \<or> (28 \<le> n \<and> n \<le> 32) \<or> n = 133 \<or> n = 160)"

definition is_upper :: "char \<Rightarrow> bool" where
  "is_upper c = (let n = code c in (65 \<le> n \<and> n \<le> 90) \<or> (192 \<le> n \<and> n \<le> 222 \<and> n \<noteq> 215))"

definition is_ascii_lower :: "char \<Rightarrow> bool" where
  "is_ascii_lower c = (let n = code c in 97 \<le> n \<and> n \<le> 122)"

definition is_ascii_alpha :: "char \<Rightarrow> bool" where
  "is_ascii_alpha c = (let n = code c in (65 \<le> n \<and> n \<le> 90) \<or> (97 \<le> n \<and> n \<le> 122))"

definition is_ascii_digit :: "char \<Rightarrow> bool" where
  "is_ascii_digit c = (let n = code c in 48 \<le> n \<and> n \<le> 57)"

definition is_word :: "char \<Rightarrow> bool" where
  \<comment> \<open>the characters \<open>\w\<close> matches in a \<open>str\<close> pattern: alphanumeric (also the Latin-1 letters and numerals) or underscore\<close>
  "is_word c =
     (let n = code c in
        (48 \<le> n \<and> n \<le> 57) \<or> (65 \<le> n \<and> n \<le> 90) \<or> n = 95 \<or> (97 \<le> n \<and> n \<le> 122) \<or>
        n = 170 \<or> n = 178 \<or> n = 179 \<or> n = 181 \<or> n = 185 \<or> n = 186 \<or> (188 \<le> n \<and> n \<le> 190) \<or>
        (192 \<le> n \<and> n \<le> 214) \<or> (216 \<le> n \<and> n \<le> 246) \<or> (248 \<le> n \<and> n \<le> 255))"

definition lower_char :: "char \<Rightarrow> char" where
  "lower_char c = (if is_upper c then char_of (code c + 32) else c)"

definition upper_char :: "char \<Rightarrow> char" where
  \<comment> \<open>\<open>str.upper\<close> on ASCII letters; the source applies it to its own keywords and to node keys only\<close>
  "upper_char c = (if is_ascii_lower c then char_of (code c - 32) else c)"

definition lower :: "string \<Rightarrow> string" where
  "lower s = map lower_char s"

definition upper :: "string \<Rightarrow> string" where
  "upper s = map upper_char s"

definition lstrip :: "string \<Rightarrow> string" where
  "lstrip s = dropWhile is_space s"

definition rstrip :: "string \<Rightarrow> string" where
  "rstrip s = rev (dropWhile is_space (rev s))"

definition strip :: "string \<Rightarrow> string" where
  "strip s = rstrip (lstrip s)"

definition rstrip_chars :: "string \<Rightarrow> string \<Rightarrow> string" where
  \<comment> \<open>\<open>s.rstrip(chars)\<close>: every trailing character that is in \<open>chars\<close> is removed\<close>
  "rstrip_chars chars s = rev (dropWhile (\<lambda>c. c \<in> set chars) (rev s))"

fun py_in :: "string \<Rightarrow> string \<Rightarrow> bool" where
  "py_in sub [] = (sub = [])"
| "py_in sub (c # cs) = (prefix sub (c # cs) \<or> py_in sub cs)"

fun find_from :: "string \<Rightarrow> string \<Rightarrow> int \<Rightarrow> int" where
  "find_from sub [] i = (if sub = [] then i else - 1)"
| "find_from sub (c # cs) i = (if prefix sub (c # cs) then i else find_from sub cs (i + 1))"

definition py_find :: "string \<Rightarrow> string \<Rightarrow> int" where
  \<comment> \<open>\<open>s.find(sub)\<close>: the lowest index of \<open>sub\<close> in \<open>s\<close>, or -1\<close>
  "py_find s sub = find_from sub s 0"

definition split_none_1 :: "string \<Rightarrow> string list" where
  \<comment> \<open>\<open>s.split(None, 1)\<close>: the first word, and the rest of the text after the whitespace that follows it\<close>
  "split_none_1 s =
     (let t = lstrip s in
      if t = [] then []
      else let w = takeWhile (\<lambda>c. \<not> is_space c) t;
               r = lstrip (dropWhile (\<lambda>c. \<not> is_space c) t)
           in if r = [] then [w] else [w, r])"

definition digit_char :: "int \<Rightarrow> char" where
  "digit_char d = ''0123456789'' ! nat d"

function str_digits :: "int \<Rightarrow> string" where
  "str_digits i = (if i < 10 then [digit_char i] else str_digits (i div 10) @ [digit_char (i mod 10)])"
  by pat_completeness auto
termination
  by (relation "measure nat") simp_all

definition str_int :: "int \<Rightarrow> string" where
  \<comment> \<open>\<open>str(i)\<close> of a Python int\<close>
  "str_int i = (if i < 0 then CHR ''-'' # str_digits (- i) else str_digits i)"

section \<open>safeguards/sql_parser.py\<close>

text \<open>
  \<open>sqlglot.parse_one\<close> is a library outside the repository: it is a parameter of the model,
  a function from the text to either the message of the exception it raises or the top-level
  node it returns. The node is \<open>Select\<close>, \<open>With\<close> or any other node, of which the source reads
  the attribute \<open>key\<close> and the class name.
\<close>

datatype ast = Select | With | Node (key: string) (type_name: string)

type_synonym parser = "string \<Rightarrow> string + ast"

definition ALLOW :: "ast \<Rightarrow> bool" where
  "ALLOW a = (a = Select \<or> a = With)"

definition BLOCK_KW :: "string list" where
  "BLOCK_KW =
     ['' drop '', '' truncate '', '' alter '', '' delete '', '' update '', '' insert '',
      '' create table '', '' create schema '', '' create index '', '' grant '', '' revoke '',
      '' vacuum '', '' analyze '', '' copy '', '' call '', '' do '']"

fun scan_block :: "string list \<Rightarrow> string \<Rightarrow> bool \<times> string" where
  "scan_block [] low_padded = (True, ''OK'')"
| "scan_block (kw # kws) low_padded =
     (if py_in kw low_padded then (False, ''Keyword bloqueada: '' @ upper (strip kw))
      else scan_block kws low_padded)"

definition explain_inner :: "string \<Rightarrow> string \<Rightarrow> string + string" where
  \<comment> \<open>the text handed to the parser in the EXPLAIN branch; \<open>Inl\<close> is the IndexError of \<open>[1]\<close>\<close>
  "explain_inner s low =
     (let idx_sel = py_find low '' select '';
          idx_with = py_find low '' with '';
          idx = max idx_sel idx_with
      in if idx = - 1 then
           (case split_none_1 s of
              [_, r] \<Rightarrow> Inr r
            | _ \<Rightarrow> Inl ''list index out of range'')
         else Inr (lstrip (drop (nat idx) s)))"

definition explain_ast :: "parser \<Rightarrow> string \<Rightarrow> string \<Rightarrow> string + ast" where
  \<comment> \<open>the \<open>try\<close> block of the EXPLAIN branch: any exception becomes its message\<close>
  "explain_ast parse_one s low =
     (case explain_inner s low of
        Inl e \<Rightarrow> Inl e
      | Inr inner \<Rightarrow> parse_one inner)"

definition node_name :: "ast \<Rightarrow> string" where
  "node_name a =
     (case a of
        Select \<Rightarrow> ''SELECT''
      | With \<Rightarrow> ''WITH''
      | Node k t \<Rightarrow> (if upper k \<noteq> [] then upper k else t))"

definition is_safe_sql :: "parser \<Rightarrow> string \<Rightarrow> bool \<times> string" where
  "is_safe_sql parse_one sql =
     (if sql = [] \<or> strip sql = [] then (False, ''SQL vac'' @ [CHR 0xED] @ ''o'')
      else
        let s = rstrip_chars '';'' (strip sql);
            low = lstrip (lower s)
        in if prefix ''explain '' low then
             (case explain_ast parse_one s low of
                Inl e \<Rightarrow> (False, ''Parse error (EXPLAIN): '' @ e)
              | Inr a \<Rightarrow>
                  if \<not> ALLOW a then (False, ''EXPLAIN solo permitido sobre SELECT/WITH'')
                  else scan_block BLOCK_KW ('' '' @ lower s @ '' ''))
           else
             (case parse_one s of
                Inl e \<Rightarrow> (False, ''Parse error: '' @ e)
              | Inr a \<Rightarrow>
                  if \<not> ALLOW a then
                    (False, ''Solo SELECT/WITH/EXPLAIN permitidos (recibido: '' @ node_name a @ '')'')
                  else scan_block BLOCK_KW ('' '' @ low @ '' '')))"


text \<open>
  A stand-in for the library on the concrete statements of the examples below: it classifies a
  statement by its leading keyword, as \<open>sqlglot.parse_one\<close> does for them (a statement that
  starts with \<open>WITH\<close> is returned as a \<open>Select\<close> node carrying its CTEs), and raises on
  empty text.
\<close>

definition parse_leading_keyword :: parser where
  "parse_leading_keyword t =
     (case split_none_1 (lower t) of
        [] \<Rightarrow> Inl ''No expression was parsed''
      | w # _ \<Rightarrow>
          if w = ''select'' \<or> w = ''with'' then Inr Select
          else Inr (Node w w))"

text \<open>
  The reading of "contains the keyword as a standalone word": the lower-cased text has the
  keyword at a place where the character before it and the character after it, if any, are
  not word characters (the regular-expression boundary \<open>\b\<close> on both sides).
\<close>

definition word_at :: "string \<Rightarrow> string \<Rightarrow> bool" where
  "word_at w t = (prefix w t \<and> (case drop (length w) t of [] \<Rightarrow> True | c # _ \<Rightarrow> \<not> is_word c))"

fun occurs_wb :: "string \<Rightarrow> bool \<Rightarrow> string \<Rightarrow> bool" where
  "occurs_wb w prev_word [] = False"
| "occurs_wb w prev_word (c # cs) = ((\<not> prev_word \<and> word_at w (c # cs)) \<or> occurs_wb w (is_word c) cs)"

definition has_denylisted_word :: "string \<Rightarrow> bool" where
  "has_denylisted_word sql = list_ex (\<lambda>kw. occurs_wb (strip kw) False (lower sql)) BLOCK_KW"

section \<open>db/explain_gate.py\<close>

text \<open>
  The values of a plan summary: \<open>None\<close>, an int, a float (a finite float is a rational number;
  how Python prints it is the parameter \<open>float_str\<close>) or a string. A dict is an association
  list with distinct keys.
\<close>

datatype pyval = PNone | PInt int | PFloat rat | PStr string

datatype py_error = TypeError

type_synonym plan = "(string \<times> pyval) list"

definition truthy :: "pyval \<Rightarrow> bool" where
  "truthy v = (case v of PNone \<Rightarrow> False | PInt i \<Rightarrow> i \<noteq> 0 | PFloat f \<Rightarrow> f \<noteq> 0 | PStr s \<Rightarrow> s \<noteq> [])"

definition py_gt_int :: "pyval \<Rightarrow> int \<Rightarrow> py_error + bool" where
  \<comment> \<open>\<open>v > k\<close> for an int \<open>k\<close>: a number is compared, anything else raises TypeError\<close>
  "py_gt_int v k =
     (case v of
        PInt i \<Rightarrow> Inr (k < i)
      | PFloat f \<Rightarrow> Inr (of_int k < f)
      | _ \<Rightarrow> Inl TypeError)"

definition format_val :: "(rat \<Rightarrow> string) \<Rightarrow> pyval \<Rightarrow> string" where
  \<comment> \<open>the value inside an f-string\<close>
  "format_val float_str v =
     (case v of PNone \<Rightarrow> ''None'' | PInt i \<Rightarrow> str_int i | PFloat f \<Rightarrow> float_str f | PStr s \<Rightarrow> s)"

definition too_expensive :: "(rat \<Rightarrow> string) \<Rightarrow> plan \<Rightarrow> py_error + bool \<times> string" where
  "too_expensive float_str plan =
     (if plan = [] \<or> map_of plan ''total_cost'' = None then Inr (False, [])
      else
        let got = the (map_of plan ''total_cost'');
            total = (if truthy got then got else PInt 0)
        in if \<not> truthy total then Inr (False, [])
           else (case py_gt_int total 5000000 of
                   Inl e \<Rightarrow> Inl e
                 | Inr gt \<Rightarrow>
                     if gt then Inr (True, ''total_cost='' @ format_val float_str total)
                     else Inr (False, [])))"

definition exceeds_ceiling :: "pyval \<Rightarrow> bool" where
  \<comment> \<open>a usable total-cost figure strictly above the ceiling\<close>
  "exceeds_ceiling v = (case v of PInt i \<Rightarrow> 5000000 < i | PFloat f \<Rightarrow> 5000000 < f | _ \<Rightarrow> False)"

section \<open>db/engine.py\<close>







section \<open>db/schema_cache.py\<close>

record ColumnInfo =
  name :: string
  data_type :: string
  is_nullable :: bool
  is_pk :: bool

record GeometryInfo =
  column :: string
  srid :: "int option"
  gtype :: "string option"

record IndexInfo =
  index_name :: string
  access_method :: string
  index_columns :: "string list"

record TableInfo =
  schema :: string
  table :: string
  columns :: "ColumnInfo list"
  pk_cols :: "string list"
  geom :: "GeometryInfo option"
  indexes :: "IndexInfo list"
  fks :: "(string list \<times> string \<times> string list) list"

type_synonym catalog = "string \<times> string \<Rightarrow> TableInfo option"

definition PREFERRED_GEOM_ORDER :: "string list" where
  "PREFERRED_GEOM_ORDER = [''geometria'', ''geometry'', ''geom'', ''the_geom'']"

definition build_table_info ::
  "(string list \<Rightarrow> string list) \<Rightarrow> string \<Rightarrow> string \<Rightarrow> ColumnInfo list \<Rightarrow> string list \<Rightarrow>
   GeometryInfo option \<Rightarrow> IndexInfo list \<Rightarrow> (string list \<times> string \<times> string list) list \<Rightarrow> TableInfo" where
  \<comment> \<open>the body of the loop of \<open>load_schema_cache\<close>, from the rows the queries returned;
      \<open>set_iter rows\<close> is the order in which Python iterates \<open>set(rows)\<close>\<close>
  "build_table_info set_iter s t cols pk_rows g idxs fk =
     (let pk = set_iter pk_rows
      in \<lparr>schema = s, table = t,
          columns = map (\<lambda>c. if name c \<in> set pk then c\<lparr>is_pk := True\<rparr> else c) cols,
          pk_cols = pk, geom = g, indexes = idxs, fks = fk\<rparr>)"

definition get_table :: "catalog \<Rightarrow> string \<Rightarrow> string \<Rightarrow> TableInfo option" where
  "get_table cache s t = cache (s, t)"

definition ID_NAMES :: "string list" where
  \<comment> \<open>the tuple of names that \<open>suggest_id_column\<close> runs through\<close>
  "ID_NAMES = [''objectid'', ''gid'', ''id'', ''pk'', ''codigo'', ''cod'', ''cod_id'']"

fun first_named :: "string list \<Rightarrow> ColumnInfo list \<Rightarrow> string option" where
  "first_named [] cols = None"
| "first_named (n # ns) cols =
     (case List.find (\<lambda>c. lower (name c) = n) cols of
        Some c \<Rightarrow> Some (name c)
      | None \<Rightarrow> first_named ns cols)"

definition suggest_id_column :: "TableInfo \<Rightarrow> string option" where
  "suggest_id_column ti =
     (if pk_cols ti \<noteq> [] then Some (hd (pk_cols ti))
      else
        (case first_named ID_NAMES (columns ti) of
           Some n \<Rightarrow> Some n
         | None \<Rightarrow>
             (let ints = map name (filter (\<lambda>c. py_in ''int'' (data_type c) \<and> \<not> is_nullable c) (columns ti))
              in if ints \<noteq> [] then Some (hd ints) else None)))"

fun first_pref :: "string list \<Rightarrow> string list \<Rightarrow> string option" where
  "first_pref [] names = None"
| "first_pref (p # ps) names = (if p \<in> set names then Some p else first_pref ps names)"

definition best_geom_column :: "TableInfo \<Rightarrow> string option" where
  "best_geom_column ti =
     (case geom ti of
        Some g \<Rightarrow> Some (column g)
      | None \<Rightarrow> first_pref PREFERRED_GEOM_ORDER (map name (columns ti)))"

definition preferred_geom :: "TableInfo \<Rightarrow> string option" where
  "preferred_geom ti = best_geom_column ti"

definition intish :: "ColumnInfo \<Rightarrow> bool" where
  \<comment> \<open>the test of the last fallback of \<open>suggest_id_column\<close>\<close>
  "intish c = (py_in ''int'' (data_type c) \<and> \<not> is_nullable c)"

text \<open>
  The claim's wording of the suggestion, to compare with \<open>suggest_id_column\<close>: an
  integer-typed column is one whose type is one of the integer types of the database.
\<close>

definition is_integer_type :: "string \<Rightarrow> bool" where
  "is_integer_type dt = (dt \<in> set [''smallint'', ''integer'', ''bigint''])"

definition suggest_primary_key_spec :: "TableInfo \<Rightarrow> string option" where
  "suggest_primary_key_spec ti =
     (if pk_cols ti \<noteq> [] then Some (hd (pk_cols ti))
      else
        (case first_named ID_NAMES (columns ti) of
           Some n \<Rightarrow> Some n
         | None \<Rightarrow>
             (case List.find (\<lambda>c. is_integer_type (data_type c) \<and> \<not> is_nullable c) (columns ti) of
                Some c \<Rightarrow> Some (name c)
              | None \<Rightarrow> None)))"

definition lapso_table :: TableInfo where
  "lapso_table =
     \<lparr>schema = ''medio_fisico'', table = ''mareas'',
      columns = [\<lparr>name = ''lapso'', data_type = ''interval'', is_nullable = False, is_pk = False\<rparr>,
                 \<lparr>name = ''altura'', data_type = ''numeric'', is_nullable = True, is_pk = False\<rparr>],
      pk_cols = [], geom = None, indexes = [], fks = []\<rparr>"

section \<open>Regular expressions, as the module \<open>re\<close> matches them\<close>

text \<open>
  The patterns of the source use a fragment of the regular expressions of Python: literal
  text, a character class, the repetition of a class (greedy \<open>*\<close> and \<open>+\<close>, lazy \<open>*?\<close>),
  sequence, alternative, an optional part, capturing groups, the word boundary \<open>\b\<close> and the
  anchors \<open>^\<close> and \<open>$\<close>. The matcher explores the alternatives in the order of the
  backtracking matcher of Python: the first way to match is its match.
\<close>

datatype cls =
    Ident        \<comment> \<open>\<open>[a-zA-Z0-9_]\<close>\<close>
  | IdentStart   \<comment> \<open>\<open>[a-zA-Z_]\<close>\<close>
  | Space        \<comment> \<open>\<open>\s\<close>\<close>
  | AnyChar      \<comment> \<open>\<open>.\<close> under \<open>re.DOTALL\<close>\<close>
  | NotChar char \<comment> \<open>\<open>[^c]\<close>\<close>

fun in_cls :: "cls \<Rightarrow> char \<Rightarrow> bool" where
  "in_cls Ident c = (is_ascii_alpha c \<or> is_ascii_digit c \<or> c = CHR ''_'')"
| "in_cls IdentStart c = (is_ascii_alpha c \<or> c = CHR ''_'')"
| "in_cls Space c = is_space c"
| "in_cls AnyChar c = True"
| "in_cls (NotChar x) c = (c \<noteq> x)"

datatype re =
    Lit string      \<comment> \<open>literal text\<close>
  | Cls cls         \<comment> \<open>one character of the class\<close>
  | Star cls        \<comment> \<open>\<open>c*\<close>\<close>
  | Plus cls        \<comment> \<open>\<open>c+\<close>\<close>
  | LazyStar cls    \<comment> \<open>\<open>c*?\<close>\<close>
  | Seq re re
  | Alt re re       \<comment> \<open>\<open>a|b\<close>\<close>
  | Opt re          \<comment> \<open>\<open>a?\<close>\<close>
  | Grp nat re      \<comment> \<open>capturing group number n\<close>
  | WordB           \<comment> \<open>\<open>\b\<close>\<close>
  | Bol             \<comment> \<open>\<open>^\<close>\<close>
  | Eol             \<comment> \<open>\<open>$\<close>\<close>

fun seqs :: "re list \<Rightarrow> re" where
  "seqs [] = Lit []"
| "seqs [r] = r"
| "seqs (r # rs) = Seq r (seqs rs)"

text \<open>
  A position in the text: the character before it (none at the start), the text from it
  on, and the groups captured so far, the latest first.
\<close>

record mstate =
  prev :: "char option"
  rest :: string
  groups :: "(nat \<times> string) list"

definition char_eq :: "bool \<Rightarrow> char \<Rightarrow> char \<Rightarrow> bool" where
  \<comment> \<open>the comparison of a literal character, under \<open>re.IGNORECASE\<close> when the flag is set\<close>
  "char_eq ic x c = (if ic then lower_char x = lower_char c else x = c)"

fun lit_match :: "bool \<Rightarrow> string \<Rightarrow> char option \<Rightarrow> string \<Rightarrow> (char option \<times> string) option" where
  "lit_match ic [] p t = Some (p, t)"
| "lit_match ic (x # xs) p [] = None"
| "lit_match ic (x # xs) p (c # cs) = (if char_eq ic x c then lit_match ic xs (Some c) cs else None)"

definition ci_prefix :: "bool \<Rightarrow> string \<Rightarrow> string \<Rightarrow> bool" where
  \<comment> \<open>the text starts with the literal, in any letter case when the flag is set\<close>
  "ci_prefix ic w t =
     (length w \<le> length t \<and> (if ic then lower (take (length w) t) = lower w else take (length w) t = w))"

fun greedy :: "cls \<Rightarrow> char option \<Rightarrow> string \<Rightarrow> (char option \<times> string) list" where
  \<comment> \<open>the ends of \<open>c*\<close>, the longest first\<close>
  "greedy k p [] = [(p, [])]"
| "greedy k p (c # cs) = (if in_cls k c then greedy k (Some c) cs @ [(p, c # cs)] else [(p, c # cs)])"

fun lazy :: "cls \<Rightarrow> char option \<Rightarrow> string \<Rightarrow> (char option \<times> string) list" where
  \<comment> \<open>the ends of \<open>c*?\<close>, the shortest first\<close>
  "lazy k p [] = [(p, [])]"
| "lazy k p (c # cs) = (p, c # cs) # (if in_cls k c then lazy k (Some c) cs else [])"

definition prev_word :: "char option \<Rightarrow> bool" where
  "prev_word p = (case p of None \<Rightarrow> False | Some c \<Rightarrow> is_word c)"

definition next_word :: "string \<Rightarrow> bool" where
  "next_word t = (case t of [] \<Rightarrow> False | c # _ \<Rightarrow> is_word c)"

definition at_boundary :: "char option \<Rightarrow> string \<Rightarrow> bool" where
  \<comment> \<open>\<open>\b\<close>: a word character on exactly one side; the start and the end count as no word character\<close>
  "at_boundary p t = (prev_word p \<noteq> next_word t)"

definition move :: "mstate \<Rightarrow> char option \<times> string \<Rightarrow> mstate" where
  "move st e = st\<lparr>prev := fst e, rest := snd e\<rparr>"

definition consumed :: "string \<Rightarrow> string \<Rightarrow> string" where
  \<comment> \<open>the text between a position and a later one\<close>
  "consumed t t' = take (length t - length t') t"

definition capture :: "nat \<Rightarrow> string \<Rightarrow> mstate \<Rightarrow> mstate" where
  "capture n t st = st\<lparr>groups := (n, consumed t (rest st)) # groups st\<rparr>"

fun rmatch :: "bool \<Rightarrow> re \<Rightarrow> mstate \<Rightarrow> mstate list" where
  "rmatch ic (Lit s) st =
     (case lit_match ic s (prev st) (rest st) of None \<Rightarrow> [] | Some e \<Rightarrow> [move st e])"
| "rmatch ic (Cls k) st =
     (case rest st of [] \<Rightarrow> [] | c # cs \<Rightarrow> if in_cls k c then [move st (Some c, cs)] else [])"
| "rmatch ic (Star k) st = map (move st) (greedy k (prev st) (rest st))"
| "rmatch ic (Plus k) st =
     (case rest st of
        [] \<Rightarrow> []
      | c # cs \<Rightarrow> if in_cls k c then map (move st) (greedy k (Some c) cs) else [])"
| "rmatch ic (LazyStar k) st = map (move st) (lazy k (prev st) (rest st))"
| "rmatch ic (Seq a b) st = concat (map (rmatch ic b) (rmatch ic a st))"
| "rmatch ic (Alt a b) st = rmatch ic a st @ rmatch ic b st"
| "rmatch ic (Opt a) st = rmatch ic a st @ [st]"
| "rmatch ic (Grp n a) st = map (capture n (rest st)) (rmatch ic a st)"
| "rmatch ic WordB st = (if at_boundary (prev st) (rest st) then [st] else [])"
| "rmatch ic Bol st = (if prev st = None then [st] else [])"
| "rmatch ic Eol st = (if rest st = [] \<or> rest st = [CHR 0x0A] then [st] else [])"

text \<open>A match object: the matched text and the captured groups.\<close>

record rmatch_obj =
  group0 :: string
  captures :: "(nat \<times> string) list"

definition group :: "rmatch_obj \<Rightarrow> nat \<Rightarrow> string option" where
  \<comment> \<open>\<open>m.group(n)\<close>; \<open>None\<close> for a group that took no part in the match\<close>
  "group mo n = map_of (captures mo) n"

definition group_text :: "rmatch_obj \<Rightarrow> nat \<Rightarrow> string" where
  "group_text mo n = (case group mo n of None \<Rightarrow> [] | Some s \<Rightarrow> s)"

definition match_at :: "bool \<Rightarrow> re \<Rightarrow> char option \<Rightarrow> string \<Rightarrow> (rmatch_obj \<times> nat) option" where
  \<comment> \<open>the match that starts at this position, with its length\<close>
  "match_at ic r p t =
     (case rmatch ic r \<lparr>prev = p, rest = t, groups = []\<rparr> of
        [] \<Rightarrow> None
      | st # _ \<Rightarrow> Some (\<lparr>group0 = consumed t (rest st), captures = groups st\<rparr>, length t - length (rest st)))"

definition re_match :: "bool \<Rightarrow> re \<Rightarrow> string \<Rightarrow> rmatch_obj option" where
  \<comment> \<open>\<open>re.match\<close>: a match at the start of the text\<close>
  "re_match ic r t = map_option fst (match_at ic r None t)"

fun search_from :: "bool \<Rightarrow> re \<Rightarrow> char option \<Rightarrow> string \<Rightarrow> rmatch_obj option" where
  "search_from ic r p [] = map_option fst (match_at ic r p [])"
| "search_from ic r p (c # cs) =
     (case match_at ic r p (c # cs) of
        Some (mo, _) \<Rightarrow> Some mo
      | None \<Rightarrow> search_from ic r (Some c) cs)"

definition re_search :: "bool \<Rightarrow> re \<Rightarrow> string \<Rightarrow> rmatch_obj option" where
  \<comment> \<open>\<open>re.search\<close>: the match at the leftmost position that has one\<close>
  "re_search ic r t = search_from ic r None t"

text \<open>
  \<open>finditer\<close> and \<open>sub\<close> go through the text from left to right; after a match they go on
  at its end (\<open>skip\<close> counts the characters of the match still to pass). A match of the
  empty text is followed by the next character. The function given to \<open>sub\<close> may record
  something: it threads an accumulator.
\<close>

fun finditer_from :: "bool \<Rightarrow> re \<Rightarrow> char option \<Rightarrow> string \<Rightarrow> nat \<Rightarrow> rmatch_obj list" where
  "finditer_from ic r p [] skip =
     (if skip = 0 then (case match_at ic r p [] of None \<Rightarrow> [] | Some (mo, _) \<Rightarrow> [mo]) else [])"
| "finditer_from ic r p (c # cs) skip =
     (if skip > 0 then finditer_from ic r (Some c) cs (skip - 1)
      else (case match_at ic r p (c # cs) of
              None \<Rightarrow> finditer_from ic r (Some c) cs 0
            | Some (mo, n) \<Rightarrow> mo # finditer_from ic r (Some c) cs (n - 1)))"

definition finditer :: "bool \<Rightarrow> re \<Rightarrow> string \<Rightarrow> rmatch_obj list" where
  "finditer ic r t = finditer_from ic r None t 0"

fun sub_from ::
  "bool \<Rightarrow> re \<Rightarrow> (rmatch_obj \<Rightarrow> 'a \<Rightarrow> string \<times> 'a) \<Rightarrow> char option \<Rightarrow> string \<Rightarrow> nat \<Rightarrow> 'a \<Rightarrow> string \<times> 'a" where
  "sub_from ic r f p [] skip acc =
     (if skip = 0 then (case match_at ic r p [] of None \<Rightarrow> ([], acc) | Some (mo, _) \<Rightarrow> f mo acc)
      else ([], acc))"
| "sub_from ic r f p (c # cs) skip acc =
     (if skip > 0 then sub_from ic r f (Some c) cs (skip - 1) acc
      else (case match_at ic r p (c # cs) of
              None \<Rightarrow> (case sub_from ic r f (Some c) cs 0 acc of (out, acc') \<Rightarrow> (c # out, acc'))
            | Some (mo, n) \<Rightarrow>
                (case f mo acc of
                   (rep, acc1) \<Rightarrow>
                     if n = 0 then
                       (case sub_from ic r f (Some c) cs 0 acc1 of (out, acc') \<Rightarrow> (rep @ c # out, acc'))
                     else
                       (case sub_from ic r f (Some c) cs (n - 1) acc1 of (out, acc') \<Rightarrow> (rep @ out, acc')))))"

definition re_sub_fn :: "bool \<Rightarrow> re \<Rightarrow> (rmatch_obj \<Rightarrow> 'a \<Rightarrow> string \<times> 'a) \<Rightarrow> string \<Rightarrow> 'a \<Rightarrow> string \<times> 'a" where
  \<comment> \<open>\<open>re.sub\<close> with a function for the replacement\<close>
  "re_sub_fn ic r f t acc = sub_from ic r f None t 0 acc"

definition re_sub :: "bool \<Rightarrow> re \<Rightarrow> (rmatch_obj \<Rightarrow> string) \<Rightarrow> string \<Rightarrow> string" where
  \<comment> \<open>\<open>re.sub\<close> with a replacement computed from the groups of the match\<close>
  "re_sub ic r tmpl t = fst (re_sub_fn ic r (\<lambda>mo u. (tmpl mo, u)) t ())"

section \<open>db/introspect.py\<close>

definition DOT_REF_RE :: re where
  \<comment> \<open>\<open>\b([a-zA-Z0-9_]+)\.([a-zA-Z0-9_]+)\b\<close>\<close>
  "DOT_REF_RE = seqs [WordB, Grp 1 (Plus Ident), Lit ''.'', Grp 2 (Plus Ident), WordB]"

definition PHRASE_REF_RE :: re where
  \<comment> \<open>\<open>(?:\besquema\b|\bschema\b)\s+([a-zA-Z0-9_]+).*?(?:\btabla\b|\btable\b)\s+([a-zA-Z0-9_]+)\<close>,
      with \<open>re.IGNORECASE | re.DOTALL\<close>\<close>
  "PHRASE_REF_RE =
     seqs [Alt (seqs [WordB, Lit ''esquema'', WordB]) (seqs [WordB, Lit ''schema'', WordB]),
           Plus Space, Grp 1 (Plus Ident), LazyStar AnyChar,
           Alt (seqs [WordB, Lit ''tabla'', WordB]) (seqs [WordB, Lit ''table'', WordB]),
           Plus Space, Grp 2 (Plus Ident)]"

definition pair12 :: "rmatch_obj \<Rightarrow> string \<times> string" where
  "pair12 mo = (group_text mo 1, group_text mo 2)"

fun uniq_from :: "'a list \<Rightarrow> 'a list \<Rightarrow> 'a list" where
  "uniq_from seen [] = []"
| "uniq_from seen (x # xs) = (if x \<in> set seen then uniq_from seen xs else x # uniq_from (x # seen) xs)"

definition find_table_refs :: "string \<Rightarrow> (string \<times> string) list" where
  "find_table_refs text =
     (if text = [] then []
      else uniq_from [] (map pair12 (finditer False DOT_REF_RE text) @ map pair12 (finditer True PHRASE_REF_RE text)))"

section \<open>db/sql_fixup.py\<close>

definition METRIC_SRID :: int where
  "METRIC_SRID = 32719"

definition ident_re :: re where
  \<comment> \<open>\<open>[a-zA-Z_][a-zA-Z0-9_]*\<close>\<close>
  "ident_re = Seq (Cls IdentStart) (Star Ident)"

definition alias_clause_re :: "string \<Rightarrow> re" where
  \<comment> \<open>\<open>\bKW\s+([a-zA-Z0-9_]+)\.([a-zA-Z0-9_]+)\s+(?:as\s+)?([a-zA-Z_][a-zA-Z0-9_]*)\<close>\<close>
  "alias_clause_re kw =
     seqs [WordB, Lit kw, Plus Space, Grp 1 (Plus Ident), Lit ''.'', Grp 2 (Plus Ident), Plus Space,
           Opt (Seq (Lit ''as'') (Plus Space)), Grp 3 ident_re]"

definition ALIAS_FROM_RE :: re where
  "ALIAS_FROM_RE = alias_clause_re ''from''"

definition ALIAS_JOIN_RE :: re where
  "ALIAS_JOIN_RE = alias_clause_re ''join''"

definition QUAL_COL_RE :: re where
  \<comment> \<open>\<open>\b([a-zA-Z0-9_]+)\.([a-zA-Z0-9_]+)\.([a-zA-Z_][a-zA-Z0-9_]*)\b\<close>\<close>
  "QUAL_COL_RE = seqs [WordB, Grp 1 (Plus Ident), Lit ''.'', Grp 2 (Plus Ident), Lit ''.'', Grp 3 ident_re, WordB]"

definition GEOM_NAMES_RE :: re where
  \<comment> \<open>\<open>geom|geometry|geometria\<close>\<close>
  "GEOM_NAMES_RE = Alt (Lit ''geom'') (Alt (Lit ''geometry'') (Lit ''geometria''))"

type_synonym alias_map = "(string \<times> string \<times> string) list"

definition put_alias :: "alias_map \<Rightarrow> rmatch_obj \<Rightarrow> alias_map" where
  \<comment> \<open>\<open>alias_map[m.group(3)] = (m.group(1), m.group(2))\<close>: a dict keeps the place of a key it has\<close>
  "put_alias d mo = AList.update (group_text mo 3) (group_text mo 1, group_text mo 2) d"

definition collect_aliases :: "string \<Rightarrow> alias_map" where
  "collect_aliases sql =
     foldl put_alias (foldl put_alias [] (finditer True ALIAS_FROM_RE sql)) (finditer True ALIAS_JOIN_RE sql)"

definition srid_for :: "catalog \<Rightarrow> string \<Rightarrow> string \<Rightarrow> int option" where
  "srid_for cache s t =
     (case get_table cache s t of
        None \<Rightarrow> None
      | Some ti \<Rightarrow> (case geom ti of None \<Rightarrow> None | Some g \<Rightarrow> srid g))"

definition geom_for :: "catalog \<Rightarrow> string \<Rightarrow> string \<Rightarrow> string option" where
  "geom_for cache s t = (case get_table cache s t of None \<Rightarrow> None | Some ti \<Rightarrow> preferred_geom ti)"

definition id_for :: "catalog \<Rightarrow> string \<Rightarrow> string \<Rightarrow> string option" where
  "id_for cache s t = (case get_table cache s t of None \<Rightarrow> None | Some ti \<Rightarrow> suggest_id_column ti)"

definition mentions_metric_units :: "string \<Rightarrow> bool" where
  "mentions_metric_units text =
     list_ex (\<lambda>w. py_in w (lower text))
       ['' metro'', '' metros'', '' m '', '' km'', ''kilometro'', ''kil'' @ [CHR 0xF3] @ ''metro'',
        ''kilometros'', ''kil'' @ [CHR 0xF3] @ ''metros'']"

definition mentions_hectares :: "string \<Rightarrow> bool" where
  "mentions_hectares text =
     list_ex (\<lambda>w. py_in w (lower text))
       [''hectarea'', ''hect'' @ [CHR 0xE1] @ ''rea'', ''hectareas'', ''hect'' @ [CHR 0xE1] @ ''reas'',
        '' ha'', '' en ha'', '' en hect'' @ [CHR 0xE1]]"

text \<open>
  The entry of \<open>table_meta\<close> for a table: the dict with the keys \<open>id\<close>, \<open>geom\<close> and \<open>srid\<close>.
\<close>

record meta_entry =
  meta_id :: "string option"
  meta_geom :: "string option"
  meta_srid :: string

type_synonym table_meta = "((string \<times> string) \<times> meta_entry) list"

type_synonym simple_map = "(string \<times> string \<times> string) list"

definition str_or_empty :: "int option \<Rightarrow> string" where
  \<comment> \<open>\<open>str(x or "")\<close>\<close>
  "str_or_empty x = (case x of None \<Rightarrow> [] | Some n \<Rightarrow> if n = 0 then [] else str_int n)"

definition build_table_meta ::
  "catalog \<Rightarrow> ((string \<times> string) list \<Rightarrow> (string \<times> string) list) \<Rightarrow> string \<Rightarrow> string \<Rightarrow> table_meta \<times> simple_map" where
  \<comment> \<open>\<open>set_iter xs\<close> is the order in which Python iterates the set that received the elements \<open>xs\<close>\<close>
  "build_table_meta cache set_iter question sql =
     (let refs = set_iter (find_table_refs question @ find_table_refs sql);
          names_count = (\<lambda>t. length (filter (\<lambda>r. snd r = t) refs));
          found = filter (\<lambda>r. get_table cache (fst r) (snd r) \<noteq> None) refs;
          meta = map (\<lambda>r. (r, \<lparr>meta_id = id_for cache (fst r) (snd r),
                                 meta_geom = geom_for cache (fst r) (snd r),
                                 meta_srid = str_or_empty (srid_for cache (fst r) (snd r))\<rparr>)) found;
          simple = map (\<lambda>r. (snd r, r)) (filter (\<lambda>r. names_count (snd r) = 1) found)
      in (meta, simple))"

definition insertion_order :: "'a list \<Rightarrow> 'a list" where
  \<comment> \<open>one order in which a set may be iterated: the order in which its elements came\<close>
  "insertion_order xs = uniq_from [] xs"

definition truthy_str :: "string option \<Rightarrow> bool" where
  "truthy_str x = (case x of None \<Rightarrow> False | Some s \<Rightarrow> s \<noteq> [])"

definition or_str :: "string option \<Rightarrow> string option \<Rightarrow> string option" where
  \<comment> \<open>\<open>x or y\<close>\<close>
  "or_str x y = (if truthy_str x then x else y)"

definition hint_text :: "string option \<Rightarrow> string" where
  "hint_text x = (case x of None \<Rightarrow> [] | Some s \<Rightarrow> s)"

definition lookup_id :: "table_meta \<Rightarrow> string \<times> string \<Rightarrow> string option" where
  \<comment> \<open>\<open>table_meta.get((sch, tab), {}).get("id")\<close>\<close>
  "lookup_id tm r = (case map_of tm r of None \<Rightarrow> None | Some e \<Rightarrow> meta_id e)"

definition lookup_geom :: "table_meta \<Rightarrow> string \<times> string \<Rightarrow> string option" where
  "lookup_geom tm r = (case map_of tm r of None \<Rightarrow> None | Some e \<Rightarrow> meta_geom e)"

definition replace_if_found ::
  "bool \<Rightarrow> re \<Rightarrow> re \<Rightarrow> (rmatch_obj \<Rightarrow> string) \<Rightarrow> string \<Rightarrow> string \<times> string list \<Rightarrow> string \<times> string list" where
  \<comment> \<open>\<open>if re.search(p, out): out = re.sub(q, repl, out); fixes.append(fix)\<close>\<close>
  "replace_if_found ic p q repl fix st =
     (case st of
        (out, fixes) \<Rightarrow>
          if re_search ic p out \<noteq> None then (re_sub ic q repl out, fixes @ [fix]) else (out, fixes))"

definition alias_step ::
  "catalog \<Rightarrow> table_meta \<Rightarrow> string \<times> string \<times> string \<Rightarrow> string \<times> string list \<Rightarrow> string \<times> string list" where
  \<comment> \<open>the body of the loop over \<open>alias_map.items()\<close>\<close>
  "alias_step cache tm item st =
     (case item of
        (alias, sch, tab) \<Rightarrow>
          let id_hint = or_str (lookup_id tm (sch, tab)) (id_for cache sch tab);
              geom_hint = or_str (lookup_geom tm (sch, tab)) (geom_for cache sch tab);
              st1 = (if truthy_str id_hint then
                       replace_if_found False
                         (seqs [WordB, Lit alias, Lit ''.id'', WordB])
                         (seqs [WordB, Grp 1 (Lit alias), Lit ''.id'', WordB])
                         (\<lambda>mo. group_text mo 1 @ ''.'' @ hint_text id_hint)
                         (alias @ ''.id -> '' @ alias @ ''.'' @ hint_text id_hint) st
                     else st)
          in if truthy_str geom_hint then
               replace_if_found True
                 (seqs [WordB, Lit alias, Lit ''.'', Grp 1 GEOM_NAMES_RE, WordB])
                 (seqs [WordB, Grp 1 (Lit alias), Lit ''.'', Grp 2 GEOM_NAMES_RE, WordB])
                 (\<lambda>mo. group_text mo 1 @ ''.'' @ hint_text geom_hint)
                 (alias @ ''.geom -> '' @ alias @ ''.'' @ hint_text geom_hint) st1
             else st1)"

definition named_step :: "string \<Rightarrow> string option \<Rightarrow> string option \<Rightarrow> string \<times> string list \<Rightarrow> string \<times> string list" where
  \<comment> \<open>the two replacements of the loops over \<open>table_meta\<close> and over \<open>simple_map\<close>, for the
      qualified or bare table name \<open>q\<close>\<close>
  "named_step q id_hint geom_hint st =
     (let st1 = (if truthy_str id_hint then
                   replace_if_found False
                     (seqs [WordB, Lit q, Lit ''.id'', WordB])
                     (seqs [WordB, Lit q, Lit ''.id'', WordB])
                     (\<lambda>mo. q @ ''.'' @ hint_text id_hint)
                     (q @ ''.id -> '' @ q @ ''.'' @ hint_text id_hint) st
                 else st)
      in if truthy_str geom_hint then
           replace_if_found True
             (seqs [WordB, Lit q, Lit ''.'', Grp 1 GEOM_NAMES_RE, WordB])
             (seqs [WordB, Lit q, Lit ''.'', Grp 1 GEOM_NAMES_RE, WordB])
             (\<lambda>mo. q @ ''.'' @ hint_text geom_hint)
             (q @ ''.geom -> '' @ q @ ''.'' @ hint_text geom_hint) st1
         else st1)"

definition qualified_step :: "(string \<times> string) \<times> meta_entry \<Rightarrow> string \<times> string list \<Rightarrow> string \<times> string list" where
  \<comment> \<open>the body of the loop over \<open>table_meta.items()\<close>\<close>
  "qualified_step item st =
     (case item of ((sch, tab), e) \<Rightarrow> named_step (sch @ ''.'' @ tab) (meta_id e) (meta_geom e) st)"

definition simple_step :: "table_meta \<Rightarrow> string \<times> string \<times> string \<Rightarrow> string \<times> string list \<Rightarrow> string \<times> string list" where
  \<comment> \<open>the body of the loop over \<open>simple_map.items()\<close>\<close>
  "simple_step tm item st =
     (case item of (tbl, sch, tab) \<Rightarrow> named_step tbl (lookup_id tm (sch, tab)) (lookup_geom tm (sch, tab)) st)"

definition wrap_transform :: "string \<Rightarrow> string \<Rightarrow> int option \<Rightarrow> string" where
  "wrap_transform alias col target_srid =
     (case target_srid of
        None \<Rightarrow> alias @ ''.'' @ col
      | Some n \<Rightarrow> if n = 0 then alias @ ''.'' @ col
                  else ''ST_Transform('' @ alias @ ''.'' @ col @ '','' @ str_int n @ '')'')"

type_synonym resolved = "string \<times> string \<times> string option \<times> string"

definition resolve_expr :: "alias_map \<Rightarrow> simple_map \<Rightarrow> string \<Rightarrow> resolved option" where
  "resolve_expr am sm expr0 =
     (let expr = strip expr0 in
      case re_match False (seqs [Bol, Grp 1 ident_re, Lit ''.'', Grp 2 ident_re, Eol]) expr of
        Some mo \<Rightarrow>
          (let alias = group_text mo 1; col = group_text mo 2 in
           case map_of am alias of
             Some (s, t) \<Rightarrow> Some (s, t, Some alias, col)
           | None \<Rightarrow>
               (case map_of sm alias of
                  Some (s, t) \<Rightarrow> Some (s, t, None, col)
                | None \<Rightarrow> None))
      | None \<Rightarrow>
          (case re_match False QUAL_COL_RE expr of
             Some mo \<Rightarrow> Some (group_text mo 1, group_text mo 2, None, group_text mo 3)
           | None \<Rightarrow> None))"

definition ST_TRANSFORM_RE :: re where
  \<comment> \<open>\<open>ST_Transform\s*\(\<close>\<close>
  "ST_TRANSFORM_RE = seqs [Lit ''ST_Transform'', Star Space, Lit ''('']"

definition ST_PAIR_RE :: re where
  \<comment> \<open>\<open>\b(ST_DWithin|ST_Intersects)\s*\(\s*([^,]+)\s*,\s*([^,]+)\s*(,\s*[^)]+)?\)\<close>\<close>
  "ST_PAIR_RE =
     seqs [WordB, Grp 1 (Alt (Lit ''ST_DWithin'') (Lit ''ST_Intersects'')), Star Space, Lit ''('', Star Space,
           Grp 2 (Plus (NotChar CHR '','')), Star Space, Lit '','', Star Space,
           Grp 3 (Plus (NotChar CHR '','')), Star Space,
           Opt (Grp 4 (seqs [Lit '','', Star Space, Plus (NotChar CHR '')'')])), Lit '')'']"

definition ST_AREA_RE :: re where
  \<comment> \<open>\<open>\bST_Area\s*\(\s*([^)]+)\s*\)\<close>\<close>
  "ST_AREA_RE =
     seqs [WordB, Lit ''ST_Area'', Star Space, Lit ''('', Star Space, Grp 1 (Plus (NotChar CHR '')'')),
           Star Space, Lit '')'']"

fun digits_value :: "string \<Rightarrow> int \<Rightarrow> int" where
  "digits_value [] acc = acc"
| "digits_value (c # cs) acc = digits_value cs (10 * acc + (int (code c) - 48))"

definition py_int :: "string \<Rightarrow> int" where
  \<comment> \<open>\<open>int(s)\<close> of the decimal text of an int; the source applies it to \<open>str\<close> of an int only\<close>
  "py_int s = (case s of [] \<Rightarrow> 0 | c # cs \<Rightarrow> if c = CHR ''-'' then - digits_value cs 0 else digits_value s 0)"

definition srid_of :: "catalog \<Rightarrow> table_meta \<Rightarrow> string \<Rightarrow> string \<Rightarrow> int option" where
  \<comment> \<open>\<open>int(table_meta.get((s, t), {}).get("srid") or 0) or _srid_for(s, t)\<close>\<close>
  "srid_of cache tm s t =
     (let txt = (case map_of tm (s, t) of None \<Rightarrow> [] | Some e \<Rightarrow> meta_srid e);
          n = (if txt = [] then 0 else py_int txt)
      in if n \<noteq> 0 then Some n else srid_for cache s t)"

definition truthy_int :: "int option \<Rightarrow> bool" where
  "truthy_int x = (case x of None \<Rightarrow> False | Some n \<Rightarrow> n \<noteq> 0)"

definition is_first :: "string option \<Rightarrow> string option \<Rightarrow> bool" where
  \<comment> \<open>\<open>a and a == first_from_alias\<close>\<close>
  "is_first a first_from_alias = (truthy_str a \<and> a = first_from_alias)"

definition metric_side :: "resolved \<Rightarrow> int option \<Rightarrow> string" where
  \<comment> \<open>\<open>new1\<close> and \<open>new2\<close> of the metric branch, from the side and its \<open>tx\<close>\<close>
  "metric_side r tx =
     (case r of
        (s, t, a, c) \<Rightarrow>
          if truthy_str a then wrap_transform (hint_text a) c tx
          else if truthy_int tx then ''ST_Transform('' @ s @ ''.'' @ t @ ''.'' @ c @ '','' @ str_int METRIC_SRID @ '')''
          else s @ ''.'' @ t @ ''.'' @ c)"

definition plain_side :: "resolved \<Rightarrow> string" where
  \<comment> \<open>\<open>f"{a}.{c}" if a else f"{s}.{t}.{c}"\<close>\<close>
  "plain_side r = (case r of (s, t, a, c) \<Rightarrow> if truthy_str a then hint_text a @ ''.'' @ c else s @ ''.'' @ t @ ''.'' @ c)"

definition to_srid_side :: "resolved \<Rightarrow> int option \<Rightarrow> string" where
  \<comment> \<open>\<open>_wrap_transform(a or f"{s}.{t}", c, srid) if a else f"ST_Transform({s}.{t}.{c},{srid})"\<close>\<close>
  "to_srid_side r n =
     (case r of
        (s, t, a, c) \<Rightarrow>
          if truthy_str a then wrap_transform (hint_text a) c n
          else ''ST_Transform('' @ s @ ''.'' @ t @ ''.'' @ c @ '','' @ (case n of None \<Rightarrow> ''None'' | Some k \<Rightarrow> str_int k) @ '')'')"

definition fix_st_geom_pair ::
  "catalog \<Rightarrow> table_meta \<Rightarrow> alias_map \<Rightarrow> simple_map \<Rightarrow> bool \<Rightarrow> string option \<Rightarrow>
   rmatch_obj \<Rightarrow> string list \<Rightarrow> string \<times> string list" where
  "fix_st_geom_pair cache tm am sm want_metric first_from_alias mo fixes =
     (let func = group_text mo 1;
          arg1 = strip (group_text mo 2);
          arg2 = strip (group_text mo 3);
          rest = group_text mo 4
      in if re_search True ST_TRANSFORM_RE arg1 \<noteq> None \<or> re_search True ST_TRANSFORM_RE arg2 \<noteq> None
         then (group0 mo, fixes)
         else
           (case (resolve_expr am sm arg1, resolve_expr am sm arg2) of
              (Some (s1, t1, a1, c1), Some (s2, t2, a2, c2)) \<Rightarrow>
                (let srid1 = srid_of cache tm s1 t1;
                     srid2 = srid_of cache tm s2 t2
                 in if want_metric then
                      (let tx1 = (if is_first a1 first_from_alias then None
                                  else if srid1 \<noteq> Some METRIC_SRID then Some METRIC_SRID else None);
                           tx2 = (if is_first a2 first_from_alias then None
                                  else if srid2 \<noteq> Some METRIC_SRID then Some METRIC_SRID else None);
                           new1 = metric_side (s1, t1, a1, c1) tx1;
                           new2 = metric_side (s2, t2, a2, c2) tx2
                       in (func @ ''('' @ new1 @ '', '' @ new2 @ rest @ '')'',
                           fixes @ [func @ '': normalizado a EPSG:'' @ str_int METRIC_SRID @ '' (metros/km)'']))
                    else if truthy_int srid1 \<and> truthy_int srid2 \<and> srid1 \<noteq> srid2 then
                      (let news =
                             (if is_first a1 first_from_alias then
                                (hint_text a1 @ ''.'' @ c1, to_srid_side (s2, t2, a2, c2) srid1)
                              else if is_first a2 first_from_alias then
                                (to_srid_side (s1, t1, a1, c1) srid2, hint_text a2 @ ''.'' @ c2)
                              else (plain_side (s1, t1, a1, c1), to_srid_side (s2, t2, a2, c2) srid1))
                       in (func @ ''('' @ fst news @ '', '' @ snd news @ rest @ '')'',
                           fixes @ [func @ '': unificados SRIDs por consistencia'']))
                    else (group0 mo, fixes))
            | _ \<Rightarrow> (group0 mo, fixes)))"

definition fix_area :: "alias_map \<Rightarrow> simple_map \<Rightarrow> string option \<Rightarrow> rmatch_obj \<Rightarrow> string list \<Rightarrow> string \<times> string list" where
  "fix_area am sm first_from_alias mo fixes =
     (let inner = strip (group_text mo 1) in
      if re_search True ST_TRANSFORM_RE inner \<noteq> None then (''('' @ group0 mo @ '')/10000.0'', fixes)
      else
        (case resolve_expr am sm inner of
           None \<Rightarrow> (''('' @ group0 mo @ '')/10000.0'', fixes)
         | Some (s, t, a, c) \<Rightarrow>
             (let expr = (if is_first a first_from_alias then hint_text a @ ''.'' @ c
                          else ''ST_Transform('' @ plain_side (s, t, a, c) @ '','' @ str_int METRIC_SRID @ '')'')
              in (''ST_Area('' @ expr @ '')/10000.0'',
                  fixes @ [''ST_Area: convertido a hect'' @ [CHR 0xE1] @ ''reas en EPSG:'' @ str_int METRIC_SRID]))))"

definition fix_sql ::
  "catalog \<Rightarrow> ((string \<times> string) list \<Rightarrow> (string \<times> string) list) \<Rightarrow> string \<Rightarrow> string \<Rightarrow> string \<times> string list" where
  "fix_sql cache set_iter sql question =
     (case build_table_meta cache set_iter question sql of
        (tm, sm) \<Rightarrow>
          let am = collect_aliases sql;
              st2 = foldl (\<lambda>st item. alias_step cache tm item st) (sql, []) am;
              st3 = foldl (\<lambda>st item. qualified_step item st) st2 tm;
              st4 = foldl (\<lambda>st item. simple_step tm item st) st3 sm;
              want_metric = mentions_metric_units question;
              want_hectares = mentions_hectares question;
              first_from_alias = map_option (\<lambda>mo. group_text mo 3) (re_search True ALIAS_FROM_RE (fst st4));
              st7 = re_sub_fn True ST_PAIR_RE (fix_st_geom_pair cache tm am sm want_metric first_from_alias)
                      (fst st4) (snd st4)
          in if want_hectares then
               re_sub_fn True ST_AREA_RE (fix_area am sm first_from_alias) (fst st7) (snd st7)
             else st7)"

section \<open>Catalogs of the examples\<close>



definition empty_catalog :: catalog where
  "empty_catalog k = None"

section \<open>Notions used in the statements about the rewrite\<close>

text \<open>
  The replacement of references, said directly. A scan goes through the text from left to
  right; \<open>ref t\<close> is the length of the reference that starts the text \<open>t\<close>, if one does,
  and a reference counts where the character before it is no word character. \<open>scan_has\<close>
  says whether the text has a reference; \<open>scan_replace\<close> replaces every reference, going
  on after each one.
\<close>

fun scan_has :: "(string \<Rightarrow> nat option) \<Rightarrow> bool \<Rightarrow> string \<Rightarrow> bool" where
  "scan_has ref pw [] = False"
| "scan_has ref pw (c # cs) = ((\<not> pw \<and> ref (c # cs) \<noteq> None) \<or> scan_has ref (is_word c) cs)"

fun scan_replace :: "(string \<Rightarrow> nat option) \<Rightarrow> (string \<Rightarrow> string) \<Rightarrow> bool \<Rightarrow> string \<Rightarrow> nat \<Rightarrow> string" where
  "scan_replace ref new pw [] skip = []"
| "scan_replace ref new pw (c # cs) skip =
     (if skip > 0 then scan_replace ref new (is_word c) cs (skip - 1)
      else (case (if pw then None else ref (c # cs)) of
              None \<Rightarrow> c # scan_replace ref new (is_word c) cs 0
            | Some n \<Rightarrow> new (c # cs) @ scan_replace ref new (is_word c) cs (n - 1)))"

definition id_ref_at :: "string \<Rightarrow> string \<Rightarrow> nat option" where
  \<comment> \<open>\<open>alias.id\<close>, as written, followed by no word character\<close>
  "id_ref_at a t = (if word_at (a @ ''.id'') t then Some (length a + 3) else None)"

definition iword_at :: "string \<Rightarrow> string \<Rightarrow> bool" where
  \<comment> \<open>the text starts with \<open>w\<close> in any letter case, followed by no word character\<close>
  "iword_at w t =
     (length w \<le> length t \<and> lower (take (length w) t) = lower w \<and> \<not> next_word (drop (length w) t))"

definition geom_ref_at :: "string \<Rightarrow> string \<Rightarrow> nat option" where
  \<comment> \<open>\<open>alias.geom\<close>, \<open>alias.geometry\<close> or \<open>alias.geometria\<close> in any letter case\<close>
  "geom_ref_at a t =
     (if iword_at (a @ ''.geom'') t then Some (length a + 5)
      else if iword_at (a @ ''.geometry'') t then Some (length a + 9)
      else if iword_at (a @ ''.geometria'') t then Some (length a + 10)
      else None)"

definition substitute_alias_spec ::
  "string \<Rightarrow> string option \<Rightarrow> string option \<Rightarrow> string \<times> string list \<Rightarrow> string \<times> string list" where
  \<comment> \<open>the substitution for one alias, in the words of the claim: with a suggested id, every
      \<open>alias.id\<close> becomes \<open>alias.<id>\<close> and one fix is recorded if there was any; likewise
      for the geometry names, where the alias stays as it is written\<close>
  "substitute_alias_spec a id_hint geom_hint st =
     (let st1 =
            (case id_hint of
               None \<Rightarrow> st
             | Some h \<Rightarrow>
                 if h \<noteq> [] \<and> scan_has (id_ref_at a) False (fst st)
                 then (scan_replace (id_ref_at a) (\<lambda>t. a @ ''.'' @ h) False (fst st) 0,
                       snd st @ [a @ ''.id -> '' @ a @ ''.'' @ h])
                 else st)
      in case geom_hint of
           None \<Rightarrow> st1
         | Some g \<Rightarrow>
             if g \<noteq> [] \<and> scan_has (geom_ref_at a) False (fst st1)
             then (scan_replace (geom_ref_at a) (\<lambda>t. take (length a) t @ ''.'' @ g) False (fst st1) 0,
                   snd st1 @ [a @ ''.geom -> '' @ a @ ''.'' @ g])
             else st1)"

definition cand :: "nat \<Rightarrow> string \<Rightarrow> mstate \<Rightarrow> mstate list" where
  \<comment> \<open>the match of one name of an alternative, captured as group \<open>k\<close> and followed by \<open>\b\<close>\<close>
  "cand k nm st =
     (if ci_prefix True nm (rest st) \<and> \<not> next_word (drop (length nm) (rest st))
      then [capture k (rest st) (move st (Some (last (take (length nm) (rest st))), drop (length nm) (rest st)))]
      else [])"


section \<open>Evaluation of the character predicates\<close>

text \<open>
  Code equations on the bits of a character, so that the predicates are evaluated without
  arithmetic on code points.
\<close>

lemma is_space_code [code]:
  "is_space (Char b0 b1 b2 b3 b4 b5 b6 b7) \<longleftrightarrow> (if b7 then (\<not> b6 \<and> (if b5 then (\<not> b4 \<and> (\<not> b3 \<and> (\<not> b2 \<and> (\<not> b1 \<and> \<not> b0)))) else (\<not> b4 \<and> (\<not> b3 \<and> (b2 \<and> (\<not> b1 \<and> b0)))))) else (\<not> b6 \<and> (if b5 then (\<not> b4 \<and> (\<not> b3 \<and> (\<not> b2 \<and> (\<not> b1 \<and> \<not> b0)))) else (if b4 then (b3 \<and> b2) else (b3 \<and> (if b2 then \<not> b1 else (b1 \<or> b0)))))))"
  by (cases b0; cases b1; cases b2; cases b3; cases b4; cases b5; cases b6; cases b7;
      simp add: is_space_def code_def Let_def)

lemma is_upper_code [code]:
  "is_upper (Char b0 b1 b2 b3 b4 b5 b6 b7) \<longleftrightarrow> (if b7 then (b6 \<and> (\<not> b5 \<and> (\<not> b4 \<or> (if b3 then (\<not> b2 \<or> (\<not> b1 \<or> \<not> b0)) else (\<not> b2 \<or> (\<not> b1 \<or> \<not> b0)))))) else (b6 \<and> (\<not> b5 \<and> (if b4 then (\<not> b3 \<or> (\<not> b2 \<and> (\<not> b1 \<or> \<not> b0))) else (b3 \<or> (b2 \<or> (b1 \<or> b0)))))))"
  by (cases b0; cases b1; cases b2; cases b3; cases b4; cases b5; cases b6; cases b7;
      simp add: is_upper_def code_def Let_def)

lemma is_ascii_lower_code [code]:
  "is_ascii_lower (Char b0 b1 b2 b3 b4 b5 b6 b7) \<longleftrightarrow> (\<not> b7 \<and> (b6 \<and> (b5 \<and> (if b4 then (\<not> b3 \<or> (\<not> b2 \<and> (\<not> b1 \<or> \<not> b0))) else (b3 \<or> (b2 \<or> (b1 \<or> b0)))))))"
  by (cases b0; cases b1; cases b2; cases b3; cases b4; cases b5; cases b6; cases b7;
      simp add: is_ascii_lower_def code_def Let_def)

lemma is_ascii_alpha_code [code]:
  "is_ascii_alpha (Char b0 b1 b2 b3 b4 b5 b6 b7) \<longleftrightarrow> (\<not> b7 \<and> (b6 \<and> (if b5 then (if b4 then (\<not> b3 \<or> (\<not> b2 \<and> (\<not> b1 \<or> \<not> b0))) else (b3 \<or> (b2 \<or> (b1 \<or> b0)))) else (if b4 then (\<not> b3 \<or> (\<not> b2 \<and> (\<not> b1 \<or> \<not> b0))) else (b3 \<or> (b2 \<or> (b1 \<or> b0)))))))"
  by (cases b0; cases b1; cases b2; cases b3; cases b4; cases b5; cases b6; cases b7;
      simp add: is_ascii_alpha_def code_def Let_def)

lemma is_ascii_digit_code [code]:
  "is_ascii_digit (Char b0 b1 b2 b3 b4 b5 b6 b7) \<longleftrightarrow> (\<not> b7 \<and> (\<not> b6 \<and> (b5 \<and> (b4 \<and> (\<not> b3 \<or> (\<not> b2 \<and> \<not> b1))))))"
  by (cases b0; cases b1; cases b2; cases b3; cases b4; cases b5; cases b6; cases b7;
      simp add: is_ascii_digit_def code_def Let_def)

lemma is_word_code [code]:
  "is_word (Char b0 b1 b2 b3 b4 b5 b6 b7) \<longleftrightarrow> (if b7 then (if b6 then (if b5 then (\<not> b4 \<or> (b3 \<or> (\<not> b2 \<or> (\<not> b1 \<or> \<not> b0)))) else (\<not> b4 \<or> (b3 \<or> (\<not> b2 \<or> (\<not> b1 \<or> \<not> b0))))) else (b5 \<and> (if b4 then (if b3 then (if b2 then (\<not> b1 \<or> \<not> b0) else (if b1 then \<not> b0 else b0)) else (if b2 then (\<not> b1 \<and> b0) else b1)) else (b3 \<and> (\<not> b2 \<and> (b1 \<and> \<not> b0)))))) else (if b6 then (if b5 then (if b4 then (\<not> b3 \<or> (\<not> b2 \<and> (\<not> b1 \<or> \<not> b0))) else (b3 \<or> (b2 \<or> (b1 \<or> b0)))) else (if b4 then (\<not> b3 \<or> (if b2 then (b1 \<and> b0) else (\<not> b1 \<or> \<not> b0))) else (b3 \<or> (b2 \<or> (b1 \<or> b0))))) else (b5 \<and> (b4 \<and> (\<not> b3 \<or> (\<not> b2 \<and> \<not> b1))))))"
  by (cases b0; cases b1; cases b2; cases b3; cases b4; cases b5; cases b6; cases b7;
      simp add: is_word_def code_def Let_def)

lemma lower_char_code [code]:
  "lower_char (Char b0 b1 b2 b3 b4 b5 b6 b7) =
     (if is_upper (Char b0 b1 b2 b3 b4 b5 b6 b7) then Char b0 b1 b2 b3 b4 True b6 b7 else Char b0 b1 b2 b3 b4 b5 b6 b7)"
  by (cases b0; cases b1; cases b2; cases b3; cases b4; cases b5; cases b6; cases b7;
      simp add: lower_char_def is_upper_def code_def Let_def char_of_eq_iff)

lemma upper_char_code [code]:
  "upper_char (Char b0 b1 b2 b3 b4 b5 b6 b7) =
     (if is_ascii_lower (Char b0 b1 b2 b3 b4 b5 b6 b7) then Char b0 b1 b2 b3 b4 False b6 b7 else Char b0 b1 b2 b3 b4 b5 b6 b7)"
  by (cases b0; cases b1; cases b2; cases b3; cases b4; cases b5; cases b6; cases b7;
      simp add: upper_char_def is_ascii_lower_def code_def Let_def char_of_eq_iff)

section \<open>Facts about the string operations\<close>

lemma code_char_of: "n < 256 \<Longrightarrow> code (char_of n) = n"
  by (simp add: code_def)

lemma space_not_upper: "is_space c \<Longrightarrow> \<not> is_upper c"
  by (auto simp: is_space_def is_upper_def Let_def)

lemma space_not_word: "is_space c \<Longrightarrow> \<not> is_word c"
  by (auto simp: is_space_def is_word_def Let_def)

lemma lower_char_space: "is_space (lower_char c) = is_space c"
proof (cases "is_upper c")
  case True
  then have b: "code c + 32 < 256" by (auto simp: is_upper_def Let_def)
  show ?thesis using True
    by (auto simp: lower_char_def code_char_of [OF b] is_space_def is_upper_def Let_def)
next
  case False
  then show ?thesis by (simp add: lower_char_def)
qed

lemma py_in_iff: "py_in sub t \<longleftrightarrow> (\<exists>pre post. t = pre @ sub @ post)"
proof (induction t)
  case Nil
  then show ?case by auto
next
  case (Cons c cs)
  show ?case
  proof
    assume "py_in sub (c # cs)"
    then consider "prefix sub (c # cs)" | "py_in sub cs" by auto
    then show "\<exists>pre post. c # cs = pre @ sub @ post"
    proof cases
      case 1
      then obtain post where "c # cs = sub @ post" by (auto simp: prefix_def)
      then have "c # cs = [] @ sub @ post" by simp
      then show ?thesis by blast
    next
      case 2
      with Cons.IH obtain pre post where "cs = pre @ sub @ post" by blast
      then have "c # cs = (c # pre) @ sub @ post" by simp
      then show ?thesis by blast
    qed
  next
    assume "\<exists>pre post. c # cs = pre @ sub @ post"
    then obtain pre post where e: "c # cs = pre @ sub @ post" by blast
    show "py_in sub (c # cs)"
    proof (cases pre)
      case Nil
      with e have "prefix sub (c # cs)" by (simp add: prefix_def)
      then show ?thesis by simp
    next
      case (Cons d ds)
      with e have "cs = ds @ sub @ post" by simp
      with Cons.IH have "py_in sub cs" by blast
      then show ?thesis by simp
    qed
  qed
qed

lemma rev_dropWhile_split: "xs = rev (dropWhile P (rev xs)) @ rev (takeWhile P (rev xs))"
  by (metis rev_append rev_rev_ident takeWhile_dropWhile_id)

lemma trimmed_decomp:
  "\<exists>a b. sql = a @ rstrip_chars '';'' (strip sql) @ b \<and>
         (\<forall>c \<in> set a. is_space c) \<and> (\<forall>c \<in> set b. is_space c \<or> c = CHR '';'')"
proof -
  let ?a = "takeWhile is_space sql"
  let ?m1 = "dropWhile is_space sql"
  let ?b1 = "rev (takeWhile is_space (rev ?m1))"
  let ?m2 = "rev (dropWhile is_space (rev ?m1))"
  let ?b2 = "rev (takeWhile (\<lambda>c. c \<in> set '';'') (rev ?m2))"
  let ?s = "rev (dropWhile (\<lambda>c. c \<in> set '';'') (rev ?m2))"
  have 1: "sql = ?a @ ?m1" by simp
  have 2: "?m1 = ?m2 @ ?b1" by (rule rev_dropWhile_split)
  have 3: "?m2 = ?s @ ?b2" by (rule rev_dropWhile_split)
  have s: "rstrip_chars '';'' (strip sql) = ?s"
    by (simp add: rstrip_chars_def strip_def rstrip_def lstrip_def)
  have "sql = ?a @ ?s @ (?b2 @ ?b1)" using 1 2 3 by (metis append.assoc)
  moreover have "\<forall>c \<in> set ?a. is_space c" by (auto dest: set_takeWhileD)
  moreover have "\<forall>c \<in> set (?b2 @ ?b1). is_space c \<or> c = CHR '';''"
    by (auto dest!: set_takeWhileD)
  ultimately show ?thesis unfolding s by blast
qed

lemma lower_append: "lower (xs @ ys) = lower xs @ lower ys"
  by (simp add: lower_def)

lemma lower_space_nonword: "is_space c \<Longrightarrow> \<not> is_word (lower_char c)"
  by (simp add: lower_char_def space_not_upper space_not_word)

lemma lower_semicolon_nonword: "\<not> is_word (lower_char CHR '';'')"
  by (simp add: lower_char_def is_upper_def is_word_def code_def Let_def)

lemma lower_trimmed_decomp:
  "\<exists>a b. lower sql = a @ lower (rstrip_chars '';'' (strip sql)) @ b \<and>
         (\<forall>c \<in> set a. \<not> is_word c) \<and> (\<forall>c \<in> set b. \<not> is_word c)"
proof -
  obtain a b where d: "sql = a @ rstrip_chars '';'' (strip sql) @ b"
    and a: "\<forall>c \<in> set a. is_space c" and b: "\<forall>c \<in> set b. is_space c \<or> c = CHR '';''"
    using trimmed_decomp by blast
  have "lower sql = lower (a @ rstrip_chars '';'' (strip sql) @ b)" using d by simp
  then have "lower sql = lower a @ lower (rstrip_chars '';'' (strip sql)) @ lower b"
    by (simp only: lower_append)
  moreover have "\<forall>c \<in> set (lower a). \<not> is_word c"
    using a by (auto simp: lower_def lower_space_nonword)
  moreover have "\<forall>c \<in> set (lower b). \<not> is_word c"
    using b by (auto simp: lower_def lower_space_nonword lower_semicolon_nonword)
  ultimately show ?thesis by blast
qed

lemma trimmed_hd:
  assumes "rstrip_chars '';'' (strip sql) \<noteq> []"
  shows "\<not> is_space (hd (rstrip_chars '';'' (strip sql)))"
proof -
  let ?m1 = "dropWhile is_space sql"
  let ?m2 = "rev (dropWhile is_space (rev ?m1))"
  let ?s = "rev (dropWhile (\<lambda>c. c \<in> set '';'') (rev ?m2))"
  have s: "rstrip_chars '';'' (strip sql) = ?s"
    by (simp add: rstrip_chars_def strip_def rstrip_def lstrip_def)
  have 2: "?m1 = ?m2 @ rev (takeWhile is_space (rev ?m1))" by (rule rev_dropWhile_split)
  have 3: "?m2 = ?s @ rev (takeWhile (\<lambda>c. c \<in> set '';'') (rev ?m2))" by (rule rev_dropWhile_split)
  have ne: "?s \<noteq> []" using assms s by simp
  have "hd ?m2 = hd ?s" using ne 3 by (metis hd_append2)
  moreover have "?m2 \<noteq> []" using ne 3 by (metis append_is_Nil_conv)
  then have "hd ?m1 = hd ?m2" and "?m1 \<noteq> []" using 2 by (metis hd_append2, metis append_is_Nil_conv)
  moreover have "?m1 \<noteq> [] \<Longrightarrow> \<not> is_space (hd ?m1)" by (rule hd_dropWhile)
  ultimately show ?thesis using s by simp
qed

lemma lstrip_lower_trimmed:
  "lstrip (lower (rstrip_chars '';'' (strip sql))) = lower (rstrip_chars '';'' (strip sql))"
proof (cases "rstrip_chars '';'' (strip sql)")
  case Nil
  then show ?thesis by (simp add: lstrip_def lower_def)
next
  case (Cons c cs)
  then have "\<not> is_space c" using trimmed_hd [of sql] by simp
  then show ?thesis using Cons by (simp add: lstrip_def lower_def lower_char_space)
qed

lemma strip_Nil_trimmed: "strip sql = [] \<Longrightarrow> rstrip_chars '';'' (strip sql) = []"
  by (simp add: rstrip_chars_def)



section \<open>The validator\<close>

lemma scan_block_fst: "fst (scan_block kws lp) \<longleftrightarrow> (\<forall>kw \<in> set kws. \<not> py_in kw lp)"
  by (induction kws) auto

lemma scan_block_True: "fst (scan_block kws lp) \<Longrightarrow> scan_block kws lp = (True, ''OK'')"
  by (induction kws) (auto split: if_splits)

lemma scan_block_False:
  "\<not> fst (scan_block kws lp) \<Longrightarrow>
   \<exists>kw \<in> set kws. py_in kw lp \<and> scan_block kws lp = (False, ''Keyword bloqueada: '' @ upper (strip kw))"
  by (induction kws) (auto split: if_splits)

lemma block_kw_all: "list_all (\<lambda>kw. kw = '' '' @ strip kw @ '' '' \<and> strip kw \<noteq> []) BLOCK_KW"
  by code_simp

lemma block_kw_form: "kw \<in> set BLOCK_KW \<Longrightarrow> kw = '' '' @ strip kw @ '' '' \<and> strip kw \<noteq> []"
  using block_kw_all by (simp add: list_all_iff)

lemma no_keyword_in_blank: "kw \<in> set BLOCK_KW \<Longrightarrow> \<not> py_in kw ''  ''"
proof -
  have "list_all (\<lambda>kw. \<not> py_in kw ''  '') BLOCK_KW" by code_simp
  then show "kw \<in> set BLOCK_KW \<Longrightarrow> \<not> py_in kw ''  ''" by (simp add: list_all_iff)
qed

lemma occurs_wb_decomp:
  "t = pre @ w @ post \<Longrightarrow> w \<noteq> [] \<Longrightarrow> (pre = [] \<longrightarrow> \<not> pw) \<Longrightarrow> (pre \<noteq> [] \<longrightarrow> \<not> is_word (last pre)) \<Longrightarrow>
   (post = [] \<or> \<not> is_word (hd post)) \<Longrightarrow> occurs_wb w pw t"
proof (induction pre arbitrary: pw t)
  case Nil
  then have "t \<noteq> []" by simp
  then obtain c cs where t: "t = c # cs" by (cases t) auto
  have "word_at w (w @ post)" using Nil.prems(5)
    by (auto simp: word_at_def split: list.splits)
  then have "word_at w (c # cs)" using Nil.prems(1) t by simp
  moreover have "\<not> pw" using Nil.prems(3) by simp
  ultimately have "occurs_wb w pw (c # cs)" by simp
  then show ?case using t by simp
next
  case (Cons d ds)
  have "occurs_wb w (is_word d) (ds @ w @ post)"
    by (rule Cons.IH) (use Cons.prems in \<open>auto split: if_splits\<close>)
  then show ?case using Cons.prems(1) by simp
qed

lemma padded_occurrence:
  assumes "[sp] @ L @ [sp] = pre @ ([sp] @ w @ [sp]) @ post"
  shows "\<exists>p q. L = p @ w @ q \<and> (p = [] \<or> last p = sp) \<and> (q = [] \<or> hd q = sp)"
proof -
  have A: "\<exists>p. [sp] @ L @ [sp] = p @ w @ [sp] @ post \<and> (p = [sp] \<or> (\<exists>p0. p = sp # p0 @ [sp]))"
  proof (cases pre)
    case Nil
    then show ?thesis using assms by auto
  next
    case (Cons d ds)
    then have "d = sp" using assms by simp
    then show ?thesis using assms Cons by auto
  qed
  then obtain p where p: "[sp] @ L @ [sp] = p @ w @ [sp] @ post" and pf: "p = [sp] \<or> (\<exists>p0. p = sp # p0 @ [sp])"
    by blast
  from pf obtain p1 where p1: "p = sp # p1" and p1l: "p1 = [] \<or> last p1 = sp" by auto
  from p p1 have e: "L @ [sp] = p1 @ w @ [sp] @ post" by simp
  show ?thesis
  proof (cases post rule: rev_cases)
    case Nil
    with e have "L = p1 @ w @ []" by simp
    with p1l show ?thesis by blast
  next
    case (snoc post0 z)
    with e have "L @ [sp] = (p1 @ w @ [sp] @ post0) @ [z]" by simp
    then have "L = p1 @ w @ ([sp] @ post0)" by simp
    moreover have "hd ([sp] @ post0) = sp" by simp
    ultimately show ?thesis using p1l by blast
  qed
qed

lemma spaced_implies_word:
  assumes kw: "kw \<in> set BLOCK_KW"
      and occ: "py_in kw ('' '' @ lower (rstrip_chars '';'' (strip sql)) @ '' '')"
  shows "occurs_wb (strip kw) False (lower sql)"
proof -
  let ?L = "lower (rstrip_chars '';'' (strip sql))"
  let ?w = "strip kw"
  have f: "kw = '' '' @ ?w @ '' ''" and wne: "?w \<noteq> []" using block_kw_form [OF kw] by simp_all
  from occ have "\<exists>pre post. '' '' @ ?L @ '' '' = pre @ kw @ post" by (simp only: py_in_iff)
  then obtain pre post where e: "'' '' @ ?L @ '' '' = pre @ kw @ post" by (elim exE)
  have "[CHR '' ''] @ ?L @ [CHR '' ''] = pre @ ([CHR '' ''] @ ?w @ [CHR '' '']) @ post"
    using e f by simp
  then have "\<exists>p q. ?L = p @ ?w @ q \<and> (p = [] \<or> last p = CHR '' '') \<and> (q = [] \<or> hd q = CHR '' '')"
    by (rule padded_occurrence)
  then obtain p q where L: "?L = p @ ?w @ q" and p: "p = [] \<or> last p = CHR '' ''" and q: "q = [] \<or> hd q = CHR '' ''"
    by (elim exE conjE)
  have "\<exists>a b. lower sql = a @ ?L @ b \<and> (\<forall>c \<in> set a. \<not> is_word c) \<and> (\<forall>c \<in> set b. \<not> is_word c)"
    by (rule lower_trimmed_decomp)
  then obtain a b where d: "lower sql = a @ ?L @ b" and a: "\<forall>c \<in> set a. \<not> is_word c" and b: "\<forall>c \<in> set b. \<not> is_word c"
    by (elim exE conjE)
  have sp: "\<not> is_word (CHR '' '')" by (simp add: is_word_def code_def Let_def)
  have d': "lower sql = (a @ p) @ ?w @ (q @ b)" using d L by simp
  have pre_ok: "a @ p \<noteq> [] \<longrightarrow> \<not> is_word (last (a @ p))"
  proof (cases "p = []")
    case True
    then show ?thesis using a by (auto simp: last_in_set)
  next
    case False
    then show ?thesis using p sp by simp
  qed
  have post_ok: "q @ b = [] \<or> \<not> is_word (hd (q @ b))"
  proof (cases "q = []")
    case True
    then show ?thesis using b by (cases b) auto
  next
    case False
    then show ?thesis using q sp by simp
  qed
  show ?thesis
    by (rule occurs_wb_decomp [OF d' wne _ pre_ok post_ok]) simp
qed

lemma is_safe_sql_nonblank:
  assumes "strip sql \<noteq> []"
  shows "is_safe_sql P sql =
     (let s = rstrip_chars '';'' (strip sql) in
      if prefix ''explain '' (lower s) then
        (case explain_ast P s (lower s) of
           Inl e \<Rightarrow> (False, ''Parse error (EXPLAIN): '' @ e)
         | Inr a \<Rightarrow> if \<not> ALLOW a then (False, ''EXPLAIN solo permitido sobre SELECT/WITH'')
                    else scan_block BLOCK_KW ('' '' @ lower s @ '' ''))
      else
        (case P s of
           Inl e \<Rightarrow> (False, ''Parse error: '' @ e)
         | Inr a \<Rightarrow> if \<not> ALLOW a then
                      (False, ''Solo SELECT/WITH/EXPLAIN permitidos (recibido: '' @ node_name a @ '')'')
                    else scan_block BLOCK_KW ('' '' @ lower s @ '' '')))"
proof -
  have ne: "sql \<noteq> []" using assms by (auto simp: strip_def rstrip_def lstrip_def)
  show ?thesis
    unfolding is_safe_sql_def Let_def lstrip_lower_trimmed
    using assms ne by simp
qed

text \<open>
  Claim C1, as the code has it. The denylist is matched as text between single spaces: when
  the lower-cased statement, trimmed and padded with one space on each side, contains a
  denylisted keyword between two spaces, \<open>is_safe_sql\<close> rejects the statement, whatever
  the parser returns. The reason is the parser's error or the rejection of the statement
  kind where one of those comes first, and otherwise names a denylisted keyword that occurs
  between spaces.
\<close>

theorem spaced_keyword_rejected:
  assumes "kw \<in> set BLOCK_KW"
      and "py_in kw ('' '' @ lower (rstrip_chars '';'' (strip sql)) @ '' '')"
  shows "\<exists>r. is_safe_sql P sql = (False, r) \<and>
           (prefix ''Parse error'' r \<or> prefix ''Solo SELECT/WITH/EXPLAIN permitidos'' r \<or>
            r = ''EXPLAIN solo permitido sobre SELECT/WITH'' \<or>
            (\<exists>k \<in> set BLOCK_KW. py_in k ('' '' @ lower (rstrip_chars '';'' (strip sql)) @ '' '') \<and>
                r = ''Keyword bloqueada: '' @ upper (strip k)))"
proof -
  let ?s = "rstrip_chars '';'' (strip sql)"
  let ?lp = "'' '' @ lower ?s @ '' ''"
  have st: "strip sql \<noteq> []"
  proof
    assume "strip sql = []"
    then have "?lp = ''  ''" by (simp add: rstrip_chars_def lower_def)
    then have "py_in kw ''  ''" using assms(2) by simp
    then show False using no_keyword_in_blank [OF assms(1)] by simp
  qed
  have "\<not> fst (scan_block BLOCK_KW ?lp)" using assms by (auto simp: scan_block_fst)
  then obtain k where k: "k \<in> set BLOCK_KW" "py_in k ?lp"
      "scan_block BLOCK_KW ?lp = (False, ''Keyword bloqueada: '' @ upper (strip k))"
    using scan_block_False by blast
  show ?thesis
  proof (cases "prefix ''explain '' (lower ?s)")
    case True
    show ?thesis
    proof (cases "explain_ast P ?s (lower ?s)")
      case (Inl e)
      then show ?thesis using True by (simp add: is_safe_sql_nonblank [OF st] Let_def)
    next
      case (Inr a)
      then show ?thesis using True k by (auto simp add: is_safe_sql_nonblank [OF st] Let_def)
    qed
  next
    case False
    show ?thesis
    proof (cases "P ?s")
      case (Inl e)
      then show ?thesis using False by (simp add: is_safe_sql_nonblank [OF st] Let_def)
    next
      case (Inr a)
      then show ?thesis using False k by (auto simp add: is_safe_sql_nonblank [OF st] Let_def)
    qed
  qed
qed

text \<open>
  The theorem at a statement whose string literal holds \<open>drop\<close> between spaces: it is
  rejected, and the reason names \<open>DROP\<close>.
\<close>

theorem spaced_keyword_rejected_witness:
  "'' drop '' \<in> set BLOCK_KW \<and>
   py_in '' drop '' ('' '' @ lower (rstrip_chars '';'' (strip ''SELECT name FROM t WHERE note = 'to drop later';'')) @ '' '') \<and>
   is_safe_sql parse_leading_keyword ''SELECT name FROM t WHERE note = 'to drop later';'' = (False, ''Keyword bloqueada: DROP'')"
proof -
  have h1: "'' drop '' \<in> set BLOCK_KW" by code_simp
  have h2: "py_in '' drop '' ('' '' @ lower (rstrip_chars '';'' (strip ''SELECT name FROM t WHERE note = 'to drop later';'')) @ '' '')"
    by code_simp
  have v: "is_safe_sql parse_leading_keyword ''SELECT name FROM t WHERE note = 'to drop later';'' = (False, ''Keyword bloqueada: DROP'')"
    by code_simp
  from spaced_keyword_rejected [OF h1 h2, of parse_leading_keyword] h1 h2 v show ?thesis by simp
qed

text \<open>
  Claim C1 as stated fails: a keyword that stands alone as a word but is delimited by
  something else than spaces (here quotes) is not detected, and the statement is allowed.
\<close>

theorem quoted_keyword_accepted:
  "has_denylisted_word ''SELECT 'drop' FROM t'' \<and>
   is_safe_sql parse_leading_keyword ''SELECT 'drop' FROM t'' = (True, ''OK'')"
  by code_simp

text \<open>
  Claim C2. A statement that is not blank, does not start with \<open>explain\<close>, is parsed as
  a \<open>Select\<close> or \<open>With\<close> node and contains no denylisted keyword as a standalone word,
  in any letter case, is allowed with reason \<open>OK\<close>.
\<close>

theorem clean_select_allowed: 
  assumes "strip sql \<noteq> []"
      and "s = rstrip_chars '';'' (strip sql)"
      and "\<not> prefix ''explain '' (lower s)"
      and "P s = Inr a" and "ALLOW a"
      and "\<not> has_denylisted_word sql"
  shows "is_safe_sql P sql = (True, ''OK'')"
proof -
  have ne: "sql \<noteq> []" using assms(1) by (auto simp: strip_def rstrip_def lstrip_def)
  have low: "lstrip (lower s) = lower s" using assms(2) lstrip_lower_trimmed by simp
  have "\<forall>kw \<in> set BLOCK_KW. \<not> py_in kw ('' '' @ lower s @ '' '')"
  proof
    fix kw assume kw: "kw \<in> set BLOCK_KW"
    show "\<not> py_in kw ('' '' @ lower s @ '' '')"
    proof
      assume "py_in kw ('' '' @ lower s @ '' '')"
      then have "occurs_wb (strip kw) False (lower sql)"
        using spaced_implies_word [OF kw] assms(2) by simp
      then have "has_denylisted_word sql" using kw by (auto simp: has_denylisted_word_def list_ex_iff)
      then show False using assms(6) by simp
    qed
  qed
  then have "scan_block BLOCK_KW ('' '' @ lower s @ '' '') = (True, ''OK'')"
    by (simp add: scan_block_True scan_block_fst)
  then show ?thesis
    using assms(1,3,4,5) ne low unfolding is_safe_sql_def assms(2) [symmetric] Let_def
    by simp
qed

theorem clean_select_allowed_witness:
  "strip ''SELECT nombre FROM datos_maestros.dpa_region_subdere;'' \<noteq> [] \<and>
   ''SELECT nombre FROM datos_maestros.dpa_region_subdere'' = rstrip_chars '';'' (strip ''SELECT nombre FROM datos_maestros.dpa_region_subdere;'') \<and>
   \<not> prefix ''explain '' (lower ''SELECT nombre FROM datos_maestros.dpa_region_subdere'') \<and>
   parse_leading_keyword ''SELECT nombre FROM datos_maestros.dpa_region_subdere'' = Inr Select \<and>
   ALLOW Select \<and>
   \<not> has_denylisted_word ''SELECT nombre FROM datos_maestros.dpa_region_subdere;'' \<and>
   is_safe_sql parse_leading_keyword ''SELECT nombre FROM datos_maestros.dpa_region_subdere;'' = (True, ''OK'')"
proof -
  let ?sql = "''SELECT nombre FROM datos_maestros.dpa_region_subdere;''"
  let ?s = "''SELECT nombre FROM datos_maestros.dpa_region_subdere''"
  have h1: "strip ?sql \<noteq> []" by code_simp
  have h2: "?s = rstrip_chars '';'' (strip ?sql)" by code_simp
  have h3: "\<not> prefix ''explain '' (lower ?s)" by code_simp
  have h4: "parse_leading_keyword ?s = Inr Select" by code_simp
  have h5: "ALLOW Select" by (simp add: ALLOW_def)
  have h6: "\<not> has_denylisted_word ?sql" by code_simp
  have "is_safe_sql parse_leading_keyword ?sql = (True, ''OK'')"
    using h1 h2 h3 h4 h5 h6 by (rule clean_select_allowed)
  with h1 h2 h3 h4 h5 h6 show ?thesis by (intro conjI)
qed

text \<open>
  Claim C3 at the statement \<open>EXPLAIN WITH c AS (SELECT 1 AS x) SELECT x FROM c\<close>. The first
  \<open>with\<close> is at index 7 and the first \<open>select\<close> between spaces at index 33; the text
  handed to the parser starts at the later of the two, not at the first, and so has lost the
  \<open>WITH\<close> clause.
\<close>

theorem explain_inner_takes_later_keyword:
  "py_find (lower ''EXPLAIN WITH c AS (SELECT 1 AS x) SELECT x FROM c'') '' with '' = 7 \<and>
   py_find (lower ''EXPLAIN WITH c AS (SELECT 1 AS x) SELECT x FROM c'') '' select '' = 33 \<and>
   explain_inner ''EXPLAIN WITH c AS (SELECT 1 AS x) SELECT x FROM c''
     (lower ''EXPLAIN WITH c AS (SELECT 1 AS x) SELECT x FROM c'') = Inr ''SELECT x FROM c''"
  by code_simp

text \<open>
  Claim C8, as the code has it. The reason of an empty statement is given exactly to the inputs
  that are empty or hold whitespace only: the test comes before the trailing terminators are
  removed, so any other input reaches the parser.
\<close>

theorem empty_reason_iff_blank: "is_safe_sql P sql = (False, ''SQL vac'' @ [CHR 0xED] @ ''o'') \<longleftrightarrow> strip sql = []"
proof (cases "strip sql = []")
  case True
  then show ?thesis by (simp add: is_safe_sql_def)
next
  case False
  let ?s = "rstrip_chars '';'' (strip sql)"
  have sb: "scan_block BLOCK_KW lp \<noteq> (False, ''SQL vac'' @ [CHR 0xED] @ ''o'')" for lp
  proof (cases "fst (scan_block BLOCK_KW lp)")
    case True
    then show ?thesis by (simp add: scan_block_True)
  next
    case False
    then show ?thesis using scan_block_False [of BLOCK_KW lp] by auto
  qed
  have "is_safe_sql P sql \<noteq> (False, ''SQL vac'' @ [CHR 0xED] @ ''o'')"
  proof (cases "prefix ''explain '' (lower ?s)")
    case True
    show ?thesis
    proof (cases "explain_ast P ?s (lower ?s)")
      case (Inl e)
      then show ?thesis using True by (simp add: is_safe_sql_nonblank [OF False] Let_def)
    next
      case (Inr a)
      then show ?thesis using True sb by (simp add: is_safe_sql_nonblank [OF False] Let_def)
    qed
  next
    case F: False
    show ?thesis
    proof (cases "P ?s")
      case (Inl e)
      then show ?thesis using F by (simp add: is_safe_sql_nonblank [OF False] Let_def)
    next
      case (Inr a)
      then show ?thesis using F sb by (simp add: is_safe_sql_nonblank [OF False] Let_def)
    qed
  qed
  then show ?thesis using False by simp
qed

theorem empty_reason_iff_blank_witness:
  "strip [CHR '' '', CHR 0x0A] = [] \<and>
   is_safe_sql parse_leading_keyword [CHR '' '', CHR 0x0A] = (False, ''SQL vac'' @ [CHR 0xED] @ ''o'')"
proof -
  have h: "strip [CHR '' '', CHR 0x0A] = []" by code_simp
  from empty_reason_iff_blank [of parse_leading_keyword "[CHR '' '', CHR 0x0A]"] h show ?thesis by simp
qed

text \<open>
  Claim C8 as stated fails at the input \<open>;\<close>: it reduces to nothing once the terminator
  is removed, and is rejected with the parser's error, not with the reason of an empty statement.
\<close>

theorem lone_terminator_reaches_parser:
  "rstrip_chars '';'' (strip '';'') = [] \<and>
   is_safe_sql parse_leading_keyword '';'' = (False, ''Parse error: No expression was parsed'')"
  by code_simp

section \<open>The cost gate\<close>

text \<open>
  Claim C4. \<open>too_expensive\<close> blocks exactly when the summary has a numeric total cost
  strictly above 5000000, and the reason is then \<open>total_cost=\<close> followed by the value;
  a summary without the key \<open>total_cost\<close>, such as the error summary, is not blocked.
\<close>

theorem too_expensive_blocked_iff:
  "(too_expensive fs plan = Inr (True, r) \<longleftrightarrow>
      (\<exists>v. map_of plan ''total_cost'' = Some v \<and> exceeds_ceiling v \<and> r = ''total_cost='' @ format_val fs v)) \<and>
   (map_of plan ''total_cost'' = None \<longrightarrow> too_expensive fs plan = Inr (False, []))"
proof (cases "map_of plan ''total_cost''")
  case None
  then show ?thesis by (simp add: too_expensive_def)
next
  case (Some v)
  then have ne: "plan \<noteq> []" by auto
  show ?thesis
  proof (cases v)
    case PNone
    then show ?thesis using Some ne
      by (simp add: too_expensive_def truthy_def py_gt_int_def exceeds_ceiling_def)
  next
    case (PInt i)
    then show ?thesis using Some ne
      by (auto simp add: too_expensive_def truthy_def py_gt_int_def exceeds_ceiling_def Let_def)
  next
    case (PFloat f)
    then show ?thesis using Some ne
      by (auto simp add: too_expensive_def truthy_def py_gt_int_def exceeds_ceiling_def Let_def)
  next
    case (PStr s)
    then show ?thesis using Some ne
      by (auto simp add: too_expensive_def truthy_def py_gt_int_def exceeds_ceiling_def Let_def)
  qed
qed

theorem too_expensive_blocked_iff_witness:
  "too_expensive (\<lambda>f. []) [(''total_cost'', PInt 6000000)] = Inr (True, ''total_cost=6000000'') \<and>
   py_in ''6000000'' ''total_cost=6000000'' \<and>
   too_expensive (\<lambda>f. []) [(''error'', PStr ''connection refused'')] = Inr (False, [])"
proof -
  have v: "map_of [(''total_cost'', PInt 6000000)] ''total_cost'' = Some (PInt 6000000)" by simp
  have e: "exceeds_ceiling (PInt 6000000)" by (simp add: exceeds_ceiling_def)
  have s: "''total_cost='' @ format_val (\<lambda>f. []) (PInt 6000000) = ''total_cost=6000000''" by code_simp
  have n: "map_of [(''error'', PStr ''connection refused'')] ''total_cost'' = None" by simp
  have p: "py_in ''6000000'' ''total_cost=6000000''" by code_simp
  from too_expensive_blocked_iff [of "\<lambda>f. []" "[(''total_cost'', PInt 6000000)]" "''total_cost=6000000''"] v e s
  have 1: "too_expensive (\<lambda>f. []) [(''total_cost'', PInt 6000000)] = Inr (True, ''total_cost=6000000'')"
    by simp
  from too_expensive_blocked_iff [of "\<lambda>f. []" "[(''error'', PStr ''connection refused'')]" "[]"] n
  have 2: "too_expensive (\<lambda>f. []) [(''error'', PStr ''connection refused'')] = Inr (False, [])"
    by simp
  from 1 p 2 show ?thesis by (intro conjI)
qed

section \<open>The executor\<close>




section \<open>The suggestion of an identifier column\<close>

lemma first_named_Some:
  "i < length ns \<Longrightarrow> k < length cols \<Longrightarrow> lower (name (cols ! k)) = ns ! i \<Longrightarrow>
   (\<forall>j<i. \<forall>c \<in> set cols. lower (name c) \<noteq> ns ! j) \<Longrightarrow>
   (\<forall>l<k. lower (name (cols ! l)) \<noteq> ns ! i) \<Longrightarrow>
   first_named ns cols = Some (name (cols ! k))"
proof (induction ns arbitrary: i)
  case Nil
  then show ?case by simp
next
  case (Cons n ns)
  show ?case
  proof (cases i)
    case 0
    have "List.find (\<lambda>c. lower (name c) = n) cols = Some (cols ! k)"
      unfolding find_Some_iff using Cons.prems 0 by auto
    then show ?thesis by simp
  next
    case (Suc i')
    have "\<forall>c \<in> set cols. lower (name c) \<noteq> (n # ns) ! 0"
      using Cons.prems(4) Suc by blast
    then have "List.find (\<lambda>c. lower (name c) = n) cols = None"
      unfolding find_None_iff by auto
    moreover have "first_named ns cols = Some (name (cols ! k))"
      by (rule Cons.IH [of i']) (use Cons.prems Suc in auto)
    ultimately show ?thesis by simp
  qed
qed

lemma first_named_None:
  "(\<forall>c \<in> set cols. lower (name c) \<notin> set ns) \<Longrightarrow> first_named ns cols = None"
proof (induction ns)
  case Nil
  then show ?case by simp
next
  case (Cons n ns)
  have "List.find (\<lambda>c. lower (name c) = n) cols = None"
    unfolding find_None_iff using Cons.prems by auto
  then show ?case using Cons by simp
qed

lemma hd_filter_first:
  "k < length xs \<Longrightarrow> P (xs ! k) \<Longrightarrow> (\<forall>l<k. \<not> P (xs ! l)) \<Longrightarrow>
   filter P xs \<noteq> [] \<and> hd (map f (filter P xs)) = f (xs ! k)"
proof (induction xs arbitrary: k)
  case Nil
  then show ?case by simp
next
  case (Cons x xs)
  show ?case
  proof (cases k)
    case 0
    then show ?thesis using Cons.prems by simp
  next
    case (Suc k')
    then have nx: "\<not> P x" using Cons.prems(3) by auto
    have "filter P xs \<noteq> [] \<and> hd (map f (filter P xs)) = f (xs ! k')"
      by (rule Cons.IH) (use Cons.prems Suc in auto)
    then show ?thesis using nx Suc by simp
  qed
qed

text \<open>
  Claim C9, as the code has it. With a non-empty stored list of primary-key columns the
  suggestion is its first element. Without one it is the first column, in column order,
  whose lower-cased name is the earliest name of \<open>ID_NAMES\<close> that any column has; failing
  that, the first column that is not nullable and whose type name contains \<open>int\<close>;
  otherwise none.
\<close>

theorem suggest_id_column_cases:
  "(pk_cols ti \<noteq> [] \<longrightarrow> suggest_id_column ti = Some (hd (pk_cols ti))) \<and>
   (pk_cols ti = [] \<longrightarrow>
      (\<forall>i k. i < length ID_NAMES \<and> k < length (columns ti) \<and>
             lower (name (columns ti ! k)) = ID_NAMES ! i \<and>
             (\<forall>j<i. \<forall>c \<in> set (columns ti). lower (name c) \<noteq> ID_NAMES ! j) \<and>
             (\<forall>l<k. lower (name (columns ti ! l)) \<noteq> ID_NAMES ! i)
          \<longrightarrow> suggest_id_column ti = Some (name (columns ti ! k))) \<and>
      ((\<forall>c \<in> set (columns ti). lower (name c) \<notin> set ID_NAMES) \<longrightarrow>
         (\<forall>k. k < length (columns ti) \<and> intish (columns ti ! k) \<and> (\<forall>l<k. \<not> intish (columns ti ! l))
            \<longrightarrow> suggest_id_column ti = Some (name (columns ti ! k))) \<and>
         ((\<forall>c \<in> set (columns ti). \<not> intish c) \<longrightarrow> suggest_id_column ti = None)))"
proof (intro conjI impI allI)
  assume "pk_cols ti \<noteq> []"
  then show "suggest_id_column ti = Some (hd (pk_cols ti))" by (simp add: suggest_id_column_def)
next
  fix i k
  assume pk: "pk_cols ti = []"
    and h: "i < length ID_NAMES \<and> k < length (columns ti) \<and>
             lower (name (columns ti ! k)) = ID_NAMES ! i \<and>
             (\<forall>j<i. \<forall>c \<in> set (columns ti). lower (name c) \<noteq> ID_NAMES ! j) \<and>
             (\<forall>l<k. lower (name (columns ti ! l)) \<noteq> ID_NAMES ! i)"
  have "first_named ID_NAMES (columns ti) = Some (name (columns ti ! k))"
    by (rule first_named_Some) (use h in auto)
  then show "suggest_id_column ti = Some (name (columns ti ! k))"
    using pk by (simp add: suggest_id_column_def ID_NAMES_def)
next
  fix k
  assume pk: "pk_cols ti = []"
    and nn: "\<forall>c \<in> set (columns ti). lower (name c) \<notin> set ID_NAMES"
    and h: "k < length (columns ti) \<and> intish (columns ti ! k) \<and> (\<forall>l<k. \<not> intish (columns ti ! l))"
  have fn: "first_named ID_NAMES (columns ti) = None" using nn by (rule first_named_None)
  have "filter intish (columns ti) \<noteq> [] \<and> hd (map name (filter intish (columns ti))) = name (columns ti ! k)"
    by (rule hd_filter_first) (use h in auto)
  then show "suggest_id_column ti = Some (name (columns ti ! k))"
    using pk fn unfolding suggest_id_column_def intish_def ID_NAMES_def by (simp add: Let_def)
next
  assume pk: "pk_cols ti = []"
    and nn: "\<forall>c \<in> set (columns ti). lower (name c) \<notin> set ID_NAMES"
    and ni: "\<forall>c \<in> set (columns ti). \<not> intish c"
  have fn: "first_named ID_NAMES (columns ti) = None" using nn by (rule first_named_None)
  have "filter intish (columns ti) = []" using ni by (simp add: filter_empty_conv)
  then show "suggest_id_column ti = None"
    using pk fn unfolding suggest_id_column_def intish_def ID_NAMES_def by (simp add: Let_def)
qed

theorem suggest_id_column_cases_witness:
  "pk_cols lapso_table = [] \<and>
   list_all (\<lambda>c. lower (name c) \<notin> set ID_NAMES) (columns lapso_table) \<and>
   0 < length (columns lapso_table) \<and> intish (columns lapso_table ! 0) \<and>
   suggest_id_column lapso_table = Some ''lapso''"
proof -
  have h1: "pk_cols lapso_table = []" by code_simp
  have h2: "list_all (\<lambda>c. lower (name c) \<notin> set ID_NAMES) (columns lapso_table)" by code_simp
  then have h2': "\<forall>c \<in> set (columns lapso_table). lower (name c) \<notin> set ID_NAMES"
    by (simp add: list_all_iff)
  have h3: "0 < length (columns lapso_table)" by code_simp
  have h4: "intish (columns lapso_table ! 0)" by code_simp
  have h5: "\<forall>l<0. \<not> intish (columns lapso_table ! l)" by simp
  have n: "name (columns lapso_table ! 0) = ''lapso''" by code_simp
  from suggest_id_column_cases [of lapso_table] h1 h2'
  have "\<forall>k. k < length (columns lapso_table) \<and> intish (columns lapso_table ! k) \<and>
            (\<forall>l<k. \<not> intish (columns lapso_table ! l))
          \<longrightarrow> suggest_id_column lapso_table = Some (name (columns lapso_table ! k))"
    by blast
  then have "suggest_id_column lapso_table = Some (name (columns lapso_table ! 0))"
    using h3 h4 h5 by blast
  with n h1 h2 h3 h4 show ?thesis by simp
qed

text \<open>
  Claim C9 as stated fails: a non-nullable column of type \<open>interval\<close> is suggested, though
  it is not integer-typed.
\<close>

theorem interval_column_suggested:
  "suggest_id_column lapso_table = Some ''lapso'' \<and> suggest_primary_key_spec lapso_table = None"
  by code_simp

text \<open>
  The order of a composite key is not kept by the loader: the key columns go through a Python
  set before they are stored, so the stored list may start with any of them.
\<close>

lemma composite_key_order_not_kept:
  "suggest_id_column
     (build_table_info rev ''s'' ''t''
        [\<lparr>name = ''a'', data_type = ''integer'', is_nullable = False, is_pk = False\<rparr>,
         \<lparr>name = ''b'', data_type = ''integer'', is_nullable = False, is_pk = False\<rparr>]
        [''a'', ''b''] None [] []) = Some ''b''"
  by code_simp

section \<open>The rewrite\<close>

















text \<open>
  The intent checks are substring checks: the text \<open> ha\<close> alone gives hectare intent,
  and the text \<open> m \<close> alone gives metric intent.
\<close>

lemma substring_triggers:
  "(py_in '' ha'' (lower question) \<longrightarrow> mentions_hectares question) \<and>
   (py_in '' m '' (lower question) \<longrightarrow> mentions_metric_units question)"
  by (simp add: mentions_hectares_def mentions_metric_units_def)

text \<open>
  Claim C10 at the question \<open>cuanto se ha medido\<close>, which has hectare intent without
  naming hectares. An area call whose argument resolves to an alias is divided by 10000 and
  a fix is recorded; an area call whose argument does not resolve is divided as well, but no
  fix is recorded for it.
\<close>

theorem hectare_pass_without_fix:
  "mentions_hectares ''cuanto se ha medido'' \<and>
   fix_sql empty_catalog insertion_order ''SELECT ST_Area(a.geom) FROM s.t a'' ''cuanto se ha medido'' =
     (''SELECT ST_Area(a.geom)/10000.0 FROM s.t a'',
      [''ST_Area: convertido a hect'' @ [CHR 0xE1] @ ''reas en EPSG:32719'']) \<and>
   fix_sql empty_catalog insertion_order ''SELECT ST_Area(geom) FROM s.t'' ''cuanto se ha medido'' =
     (''SELECT (ST_Area(geom))/10000.0 FROM s.t'', [])"
  by code_simp

end
